theory Spec2Isabelle
  imports Complex_Main "HOL-Library.AList"
begin

section \<open>Python values, errors and dictionaries\<close>

text \<open>
  Both scripts compute with Python numbers: the scenario entries are ints and floats, the
  unit prices are floats. The model takes every number as an exact \<^typ>\<open>real\<close>: an int is
  exact, a float is idealised to the real it denotes, so rounding is outside the model.
  A scenario is a dictionary from field names to numbers. Reading a missing key with
  \<^verbatim>\<open>scenario['k']\<close> raises KeyError, \<^verbatim>\<open>scenario.get('k', d)\<close> yields the default, and
  \<^verbatim>\<open>a / b\<close> raises ZeroDivisionError when \<^verbatim>\<open>b\<close> is zero.
\<close>

datatype py_error = KeyError string | ZeroDivisionError

type_synonym scenario = "string \<rightharpoonup> real"

definition and_then :: "py_error + 'a \<Rightarrow> ('a \<Rightarrow> py_error + 'b) \<Rightarrow> py_error + 'b" where
  "and_then m f = (case m of Inl e \<Rightarrow> Inl e | Inr v \<Rightarrow> f v)"

definition getitem :: "scenario \<Rightarrow> string \<Rightarrow> py_error + real" where
  "getitem d k = (case d k of None \<Rightarrow> Inl (KeyError k) | Some v \<Rightarrow> Inr v)"

definition get_default :: "scenario \<Rightarrow> string \<Rightarrow> real \<Rightarrow> real" where
  "get_default d k dflt = (case d k of None \<Rightarrow> dflt | Some v \<Rightarrow> v)"

definition truediv :: "real \<Rightarrow> real \<Rightarrow> py_error + real" where
  "truediv a b = (if b = 0 then Inl ZeroDivisionError else Inr (a / b))"

section \<open>accurate-cost-calculator.py: the simpler script\<close>

text \<open>
  The script's two provider functions share their names with the methods of the class
  of the other script; here they carry the prefix \<open>acc\<close>. Their unit prices are literals
  in the function bodies. Both return a dictionary of four category sub-totals, the
  total and the logging percentage.
\<close>

record simple_report =
  compute :: real
  storage :: real
  database :: real
  logging :: real
  total :: real
  logging_pct :: real

text \<open>calculate_aws_costs, lines 65 to 113.\<close>

definition acc_calculate_aws_costs :: "scenario \<Rightarrow> py_error + simple_report" where
  "acc_calculate_aws_costs scenario =
     and_then (getitem scenario ''monthly_requests'') (\<lambda>requests.
     let lambda_cost = max 0 ((requests - 1000000) * 0.0000002);
         api_gateway_cost = requests * 0.0000035;
         costs_compute = lambda_cost + api_gateway_cost
     in
     and_then (getitem scenario ''storage_gb'') (\<lambda>storage_gb.
     let storage_cost = storage_gb * 0.023 in
     and_then (getitem scenario ''data_transfer_gb'') (\<lambda>data_transfer_gb.
     let transfer_cost = data_transfer_gb * 0.085;
         costs_storage = storage_cost + transfer_cost
     in
     and_then (getitem scenario ''users'') (\<lambda>users.
     let costs_database = (if users \<le> 100 then 65 else if users \<le> 1000 then 156 else 625) in
     and_then (getitem scenario ''log_volume_gb'') (\<lambda>log_gb.
     let cloudwatch_cost = log_gb * 0.50 + log_gb * 0.03 in
     and_then (getitem scenario ''users'') (\<lambda>users.
     let opensearch_cost = (if users \<le> 100 then 28 else if users \<le> 1000 then 145 else 567);
         costs_logging = cloudwatch_cost + opensearch_cost;
         additional = 20;
         total = costs_compute + costs_storage + costs_database + costs_logging + additional
     in
     and_then (truediv costs_logging total) (\<lambda>q.
     Inr \<lparr> compute = costs_compute,
           storage = costs_storage,
           database = costs_database,
           logging = costs_logging,
           total = total,
           logging_pct = q * 100 \<rparr>)))))))"

text \<open>calculate_azure_costs, lines 115 to 173.\<close>

definition acc_calculate_azure_costs :: "scenario \<Rightarrow> py_error + simple_report" where
  "acc_calculate_azure_costs scenario =
     and_then (getitem scenario ''monthly_requests'') (\<lambda>requests.
     let functions_cost = max 0 ((requests - 1000000) * 0.0000002) in
     and_then (getitem scenario ''users'') (\<lambda>users.
     let apim_cost = (if users \<le> 100 then 48 else if users \<le> 1000 then 268 else 2845);
         costs_compute = functions_cost + apim_cost
     in
     and_then (getitem scenario ''storage_gb'') (\<lambda>storage_gb.
     let storage_cost = storage_gb * 0.18 in
     and_then (getitem scenario ''data_transfer_gb'') (\<lambda>data_transfer_gb.
     let transfer_cost = data_transfer_gb * 0.15;
         static_app_cost = 9;
         costs_storage = storage_cost + transfer_cost + static_app_cost
     in
     and_then (getitem scenario ''users'') (\<lambda>users.
     let ru_cost = (if users \<le> 100 then 1000 * 0.008 * 730
                    else if users \<le> 1000 then 5000 * 0.008 * 730
                    else 25000 * 0.008 * 730);
         costs_database = ru_cost
     in
     and_then (getitem scenario ''log_volume_gb'') (\<lambda>log_gb.
     let monitor_cost = log_gb * 0.27 + log_gb * 0.12 in
     and_then (getitem scenario ''users'') (\<lambda>users.
     let search_cost = (if users \<le> 100 then 25 else if users \<le> 1000 then 89 else 445);
         costs_logging = monitor_cost + search_cost;
         additional = 15;
         total = costs_compute + costs_storage + costs_database + costs_logging + additional
     in
     and_then (truediv costs_logging total) (\<lambda>q.
     Inr \<lparr> compute = costs_compute,
           storage = costs_storage,
           database = costs_database,
           logging = costs_logging,
           total = total,
           logging_pct = q * 100 \<rparr>))))))))"

text \<open>
  calculate_costs, lines 43 to 56: the body of the loop for one scenario. The function
  prints its figures; the model returns the two it computes for the comparison,
  \<^verbatim>\<open>savings\<close> and \<^verbatim>\<open>savings_pct\<close>.
\<close>

definition acc_scenario_savings :: "scenario \<Rightarrow> py_error + real \<times> real" where
  "acc_scenario_savings scenario =
     and_then (acc_calculate_aws_costs scenario) (\<lambda>aws_costs.
     and_then (acc_calculate_azure_costs scenario) (\<lambda>azure_costs.
     let savings = total aws_costs - total azure_costs in
     and_then (truediv savings (total aws_costs)) (\<lambda>q.
     Inr (savings, q * 100))))"

text \<open>The first of the three scenarios of calculate_costs, lines 11 to 18.\<close>

definition acc_low :: scenario where
  "acc_low = map_of
     [(''monthly_requests'', 45000),
      (''data_transfer_gb'', 200),
      (''storage_gb'', 50),
      (''log_volume_gb'', 10),
      (''users'', 100)]"

section \<open>cloud-cost-calculator.py: the class CloudCostCalculator\<close>

subsection \<open>The pricing tables set up by the constructor\<close>

text \<open>
  \<^verbatim>\<open>self.aws_pricing\<close> and \<^verbatim>\<open>self.azure_pricing\<close> are nested dictionaries of constants that
  are never written after the constructor. Each entry is a constant named by its path.
\<close>

named_theorems pricing \<open>the entries of the two pricing tables\<close>

definition aws_pricing_lambda_requests :: real where
  [pricing]: "aws_pricing_lambda_requests = 0.0000002"
definition aws_pricing_lambda_gb_seconds :: real where
  [pricing]: "aws_pricing_lambda_gb_seconds = 0.0000166667"
definition aws_pricing_api_gateway_requests :: real where
  [pricing]: "aws_pricing_api_gateway_requests = 0.0000035"
definition aws_pricing_s3_storage :: real where
  [pricing]: "aws_pricing_s3_storage = 0.023"
definition aws_pricing_s3_requests_put :: real where
  [pricing]: "aws_pricing_s3_requests_put = 0.0005"
definition aws_pricing_s3_requests_get :: real where
  [pricing]: "aws_pricing_s3_requests_get = 0.0004"
definition aws_pricing_s3_transfer :: real where
  [pricing]: "aws_pricing_s3_transfer = 0.09"
definition aws_pricing_cloudfront_transfer :: real where
  [pricing]: "aws_pricing_cloudfront_transfer = 0.085"
definition aws_pricing_cloudfront_requests :: real where
  [pricing]: "aws_pricing_cloudfront_requests = 0.0075"
definition aws_pricing_documentdb_t3_medium :: real where
  [pricing]: "aws_pricing_documentdb_t3_medium = 65"
definition aws_pricing_documentdb_r5_large :: real where
  [pricing]: "aws_pricing_documentdb_r5_large = 156"
definition aws_pricing_documentdb_r5_2xlarge :: real where
  [pricing]: "aws_pricing_documentdb_r5_2xlarge = 625"
definition aws_pricing_cloudwatch_ingestion :: real where
  [pricing]: "aws_pricing_cloudwatch_ingestion = 0.50"
definition aws_pricing_cloudwatch_storage :: real where
  [pricing]: "aws_pricing_cloudwatch_storage = 0.03"
definition aws_pricing_cloudwatch_metrics :: real where
  [pricing]: "aws_pricing_cloudwatch_metrics = 0.30"
definition aws_pricing_cloudwatch_alarms :: real where
  [pricing]: "aws_pricing_cloudwatch_alarms = 0.10"
definition aws_pricing_opensearch_t3_small :: real where
  [pricing]: "aws_pricing_opensearch_t3_small = 28"
definition aws_pricing_opensearch_m5_large :: real where
  [pricing]: "aws_pricing_opensearch_m5_large = 89"
definition aws_pricing_opensearch_c5_2xlarge :: real where
  [pricing]: "aws_pricing_opensearch_c5_2xlarge = 567"

definition azure_pricing_functions_requests :: real where
  [pricing]: "azure_pricing_functions_requests = 0.0000002"
definition azure_pricing_functions_gb_seconds :: real where
  [pricing]: "azure_pricing_functions_gb_seconds = 0.000016"
definition azure_pricing_apim_developer :: real where
  [pricing]: "azure_pricing_apim_developer = 48"
definition azure_pricing_apim_standard :: real where
  [pricing]: "azure_pricing_apim_standard = 268"
definition azure_pricing_apim_premium :: real where
  [pricing]: "azure_pricing_apim_premium = 2845"
definition azure_pricing_static_web_apps_standard :: real where
  [pricing]: "azure_pricing_static_web_apps_standard = 9"
definition azure_pricing_static_web_apps_storage :: real where
  [pricing]: "azure_pricing_static_web_apps_storage = 0.18"
definition azure_pricing_static_web_apps_bandwidth :: real where
  [pricing]: "azure_pricing_static_web_apps_bandwidth = 0.15"
definition azure_pricing_cosmos_db_ru_per_second :: real where
  [pricing]: "azure_pricing_cosmos_db_ru_per_second = 0.008"
definition azure_pricing_monitor_ingestion :: real where
  [pricing]: "azure_pricing_monitor_ingestion = 0.27"
definition azure_pricing_monitor_retention_basic :: real where
  [pricing]: "azure_pricing_monitor_retention_basic = 0.12"
definition azure_pricing_monitor_retention_premium :: real where
  [pricing]: "azure_pricing_monitor_retention_premium = 0.25"
definition azure_pricing_cognitive_search_basic :: real where
  [pricing]: "azure_pricing_cognitive_search_basic = 25"
definition azure_pricing_cognitive_search_standard_s1 :: real where
  [pricing]: "azure_pricing_cognitive_search_standard_s1 = 89"
definition azure_pricing_cognitive_search_standard_s3 :: real where
  [pricing]: "azure_pricing_cognitive_search_standard_s3 = 445"

subsection \<open>calculate_aws_costs\<close>

text \<open>
  The \<^verbatim>\<open>costs\<close> dictionary the function builds, as it stands at the return: the nested
  entries are flattened, \<^verbatim>\<open>costs['lambda']['total']\<close> is the field \<open>lambda_total\<close>, and the
  \<^verbatim>\<open>additional\<close> dictionary keeps its entries in insertion order.
\<close>

record aws_costs =
  lambda_requests :: real
  lambda_execution :: real
  lambda_total :: real
  api_gateway :: real
  s3_cloudfront_storage :: real
  s3_cloudfront_transfer :: real
  s3_cloudfront_total :: real
  database :: real
  cloudwatch_ingestion :: real
  cloudwatch_storage :: real
  cloudwatch_metrics :: real
  cloudwatch_alarms :: real
  cloudwatch_total :: real
  opensearch :: real
  additional :: "(string \<times> real) list"

text \<open>The dictionary both provider functions return.\<close>

record 'c cost_report =
  breakdown :: 'c
  total :: real
  logging_percentage :: real

text \<open>Lines 77 to 136: the reads of the scenario, in the source's order, and the entries.\<close>

definition aws_breakdown :: "scenario \<Rightarrow> py_error + aws_costs" where
  "aws_breakdown scenario =
     and_then (getitem scenario ''requests_per_month'') (\<lambda>lambda_requests.
     and_then (getitem scenario ''avg_duration_seconds'') (\<lambda>lambda_duration.
     and_then (getitem scenario ''memory_gb'') (\<lambda>lambda_memory_gb.
     let gb_seconds = lambda_requests * lambda_duration * lambda_memory_gb;
         l_requests = max 0 ((lambda_requests - 1000000) * aws_pricing_lambda_requests);
         l_execution = max 0 ((gb_seconds - 400000) * aws_pricing_lambda_gb_seconds);
         l_total = l_requests + l_execution;
         gateway = lambda_requests * aws_pricing_api_gateway_requests
     in
     and_then (getitem scenario ''storage_gb'') (\<lambda>storage_gb.
     and_then (getitem scenario ''cdn_transfer_gb'') (\<lambda>transfer_gb.
     let s3_storage = storage_gb * aws_pricing_s3_storage;
         s3_transfer = transfer_gb * aws_pricing_cloudfront_transfer;
         s3_total = s3_storage + s3_transfer
     in
     and_then (getitem scenario ''database_cost'') (\<lambda>database_cost.
     and_then (getitem scenario ''log_volume_gb'') (\<lambda>log_volume_gb.
     and_then (getitem scenario ''metrics_count'') (\<lambda>metrics_count.
     and_then (getitem scenario ''alarms_count'') (\<lambda>alarms_count.
     let cw_ingestion = log_volume_gb * aws_pricing_cloudwatch_ingestion;
         cw_storage = log_volume_gb * aws_pricing_cloudwatch_storage;
         cw_metrics = metrics_count * aws_pricing_cloudwatch_metrics;
         cw_alarms = alarms_count * aws_pricing_cloudwatch_alarms;
         cw_total = cw_ingestion + cw_storage + cw_metrics + cw_alarms
     in
     and_then (getitem scenario ''opensearch_cost'') (\<lambda>opensearch_cost.
     Inr \<lparr> lambda_requests = l_requests,
           lambda_execution = l_execution,
           lambda_total = l_total,
           api_gateway = gateway,
           s3_cloudfront_storage = s3_storage,
           s3_cloudfront_transfer = s3_transfer,
           s3_cloudfront_total = s3_total,
           database = database_cost,
           cloudwatch_ingestion = cw_ingestion,
           cloudwatch_storage = cw_storage,
           cloudwatch_metrics = cw_metrics,
           cloudwatch_alarms = cw_alarms,
           cloudwatch_total = cw_total,
           opensearch = opensearch_cost,
           additional =
             [(''cognito'', get_default scenario ''cognito_cost'' 0),
              (''sns_ses'', get_default scenario ''notification_cost'' 2),
              (''waf'', get_default scenario ''waf_cost'' 6),
              (''data_transfer'', get_default scenario ''data_transfer_cost'' 18)] \<rparr>))))))))))"

text \<open>Lines 139 to 142: \<^verbatim>\<open>total_cost\<close>, with \<^verbatim>\<open>sum(costs['additional'].values())\<close>.\<close>

definition aws_total_cost :: "aws_costs \<Rightarrow> real" where
  "aws_total_cost costs =
     lambda_total costs + api_gateway costs + s3_cloudfront_total costs + database costs
     + cloudwatch_total costs + opensearch costs + sum_list (map snd (additional costs))"

text \<open>Lines 144 to 148: the returned dictionary; the division comes first, then the factor.\<close>

definition calculate_aws_costs :: "scenario \<Rightarrow> py_error + aws_costs cost_report" where
  "calculate_aws_costs scenario =
     and_then (aws_breakdown scenario) (\<lambda>costs.
     let total_cost = aws_total_cost costs in
     and_then (truediv (cloudwatch_total costs + opensearch costs) total_cost) (\<lambda>q.
     Inr \<lparr> breakdown = costs, total = total_cost, logging_percentage = q * 100 \<rparr>))"

subsection \<open>calculate_azure_costs\<close>

record azure_costs =
  functions_requests :: real
  functions_execution :: real
  functions_total :: real
  apim :: real
  static_web_apps_base :: real
  static_web_apps_storage :: real
  static_web_apps_bandwidth :: real
  static_web_apps_total :: real
  cosmos_db :: real
  monitor_ingestion :: real
  monitor_retention :: real
  monitor_total :: real
  search :: real
  azure_additional :: "(string \<times> real) list"

text \<open>Lines 151 to 209.\<close>

definition azure_breakdown :: "scenario \<Rightarrow> py_error + azure_costs" where
  "azure_breakdown scenario =
     and_then (getitem scenario ''requests_per_month'') (\<lambda>function_requests.
     and_then (getitem scenario ''avg_duration_seconds'') (\<lambda>function_duration.
     and_then (getitem scenario ''memory_gb'') (\<lambda>function_memory_gb.
     let gb_seconds = function_requests * function_duration * function_memory_gb;
         f_requests = max 0 ((function_requests - 1000000) * azure_pricing_functions_requests);
         f_execution = max 0 ((gb_seconds - 400000) * azure_pricing_functions_gb_seconds);
         f_total = f_requests + f_execution
     in
     and_then (getitem scenario ''apim_tier_cost'') (\<lambda>apim_tier_cost.
     and_then (getitem scenario ''storage_gb'') (\<lambda>storage_gb.
     and_then (getitem scenario ''cdn_transfer_gb'') (\<lambda>transfer_gb.
     let swa_base = azure_pricing_static_web_apps_standard;
         swa_storage = storage_gb * azure_pricing_static_web_apps_storage;
         swa_bandwidth = transfer_gb * azure_pricing_static_web_apps_bandwidth;
         swa_total = swa_base + swa_storage + swa_bandwidth
     in
     and_then (getitem scenario ''cosmos_ru_per_second'') (\<lambda>ru_per_second.
     let hours_per_month = 730;
         cosmos = ru_per_second * azure_pricing_cosmos_db_ru_per_second * hours_per_month
     in
     and_then (getitem scenario ''log_volume_gb'') (\<lambda>log_volume_gb.
     let m_ingestion = log_volume_gb * azure_pricing_monitor_ingestion;
         m_retention = log_volume_gb * azure_pricing_monitor_retention_basic;
         m_total = m_ingestion + m_retention
     in
     and_then (getitem scenario ''search_tier_cost'') (\<lambda>search_tier_cost.
     Inr \<lparr> functions_requests = f_requests,
           functions_execution = f_execution,
           functions_total = f_total,
           apim = apim_tier_cost,
           static_web_apps_base = swa_base,
           static_web_apps_storage = swa_storage,
           static_web_apps_bandwidth = swa_bandwidth,
           static_web_apps_total = swa_total,
           cosmos_db = cosmos,
           monitor_ingestion = m_ingestion,
           monitor_retention = m_retention,
           monitor_total = m_total,
           search = search_tier_cost,
           azure_additional =
             [(''ad_b2c'', get_default scenario ''ad_b2c_cost'' 0),
              (''logic_apps'', get_default scenario ''logic_apps_cost'' 1),
              (''app_gateway'', get_default scenario ''app_gateway_cost'' 18),
              (''key_vault'', get_default scenario ''key_vault_cost'' 1),
              (''data_transfer'', get_default scenario ''data_transfer_cost'' 16)] \<rparr>)))))))))"

text \<open>Lines 212 to 215.\<close>

definition azure_total_cost :: "azure_costs \<Rightarrow> real" where
  "azure_total_cost costs =
     functions_total costs + apim costs + static_web_apps_total costs + cosmos_db costs
     + monitor_total costs + search costs + sum_list (map snd (azure_additional costs))"

text \<open>Lines 217 to 221.\<close>

definition calculate_azure_costs :: "scenario \<Rightarrow> py_error + azure_costs cost_report" where
  "calculate_azure_costs scenario =
     and_then (azure_breakdown scenario) (\<lambda>costs.
     let total_cost = azure_total_cost costs in
     and_then (truediv (monitor_total costs + search costs) total_cost) (\<lambda>q.
     Inr \<lparr> breakdown = costs, total = total_cost, logging_percentage = q * 100 \<rparr>))"

subsection \<open>generate_scenarios\<close>

text \<open>
  The three hard-coded scenarios. Each inner dictionary holds one string, under
  \<^verbatim>\<open>'name'\<close>, and numbers; the model keeps the name beside the numeric entries.
\<close>

definition low_usage :: scenario where
  "low_usage = map_of
     [(''requests_per_month'', 50000),
      (''avg_duration_seconds'', 2),
      (''memory_gb'', 0.5),
      (''storage_gb'', 50),
      (''cdn_transfer_gb'', 100),
      (''log_volume_gb'', 10),
      (''metrics_count'', 50),
      (''alarms_count'', 10),
      (''database_cost'', 65),
      (''opensearch_cost'', 28),
      (''apim_tier_cost'', 48),
      (''cosmos_ru_per_second'', 1000),
      (''search_tier_cost'', 25)]"

definition medium_usage :: scenario where
  "medium_usage = map_of
     [(''requests_per_month'', 1500000),
      (''avg_duration_seconds'', 2),
      (''memory_gb'', 0.5),
      (''storage_gb'', 200),
      (''cdn_transfer_gb'', 500),
      (''log_volume_gb'', 100),
      (''metrics_count'', 200),
      (''alarms_count'', 25),
      (''database_cost'', 156),
      (''opensearch_cost'', 145),
      (''apim_tier_cost'', 268),
      (''cosmos_ru_per_second'', 5000),
      (''search_tier_cost'', 89),
      (''cognito_cost'', 27.5),
      (''notification_cost'', 12),
      (''waf_cost'', 15),
      (''data_transfer_cost'', 89),
      (''ad_b2c_cost'', 15),
      (''logic_apps_cost'', 28),
      (''app_gateway_cost'', 45),
      (''key_vault_cost'', 3)]"

definition high_usage :: scenario where
  "high_usage = map_of
     [(''requests_per_month'', 15000000),
      (''avg_duration_seconds'', 3),
      (''memory_gb'', 1.0),
      (''storage_gb'', 1000),
      (''cdn_transfer_gb'', 5000),
      (''log_volume_gb'', 1000),
      (''metrics_count'', 1000),
      (''alarms_count'', 50),
      (''database_cost'', 625),
      (''opensearch_cost'', 567),
      (''apim_tier_cost'', 2845),
      (''cosmos_ru_per_second'', 25000),
      (''search_tier_cost'', 445),
      (''cognito_cost'', 275),
      (''notification_cost'', 89),
      (''waf_cost'', 3000),
      (''data_transfer_cost'', 856),
      (''ad_b2c_cost'', 150),
      (''logic_apps_cost'', 234),
      (''app_gateway_cost'', 334),
      (''key_vault_cost'', 12)]"

definition generate_scenarios :: "(string \<times> string \<times> scenario) list" where
  "generate_scenarios =
     [(''low_usage'', ''Low Usage (100 DAU)'', low_usage),
      (''medium_usage'', ''Medium Usage (1K DAU)'', medium_usage),
      (''high_usage'', ''High Usage (10K DAU)'', high_usage)]"

subsection \<open>compare_all_scenarios\<close>

text \<open>One entry of the \<^verbatim>\<open>results\<close> dictionary.\<close>

record comparison =
  scenario :: string
  aws :: "aws_costs cost_report"
  azure :: "azure_costs cost_report"
  savings_azure :: real
  savings_percentage :: real

text \<open>
  Lines 297 to 306, the body of the loop: the argument is the name of the scenario and
  its numeric entries.
\<close>

definition compare_scenario :: "string \<times> scenario \<Rightarrow> py_error + comparison" where
  "compare_scenario scenario_data =
     and_then (calculate_aws_costs (snd scenario_data)) (\<lambda>aws_costs.
     and_then (calculate_azure_costs (snd scenario_data)) (\<lambda>azure_costs.
     and_then (truediv (total aws_costs - total azure_costs) (total aws_costs)) (\<lambda>q.
     Inr \<lparr> scenario = fst scenario_data,
           aws = aws_costs,
           azure = azure_costs,
           savings_azure = total aws_costs - total azure_costs,
           savings_percentage = q * 100 \<rparr>)))"

text \<open>
  The loop over \<^verbatim>\<open>scenarios.items()\<close>, in insertion order; \<^verbatim>\<open>results[scenario_name] = ...\<close>
  replaces the entry of a key already there and appends a new key at the end. An error
  in one scenario ends the whole call.
\<close>

fun compare_loop ::
  "(string \<times> string \<times> scenario) list \<Rightarrow> (string \<times> comparison) list
     \<Rightarrow> py_error + (string \<times> comparison) list" where
  "compare_loop [] results = Inr results"
| "compare_loop ((scenario_name, scenario_data) # rest) results =
     and_then (compare_scenario scenario_data) (\<lambda>r.
     compare_loop rest (AList.update scenario_name r results))"

definition compare_all_scenarios :: "py_error + (string \<times> comparison) list" where
  "compare_all_scenarios = compare_loop generate_scenarios []"

subsection \<open>generate_report\<close>

text \<open>
  Line 326, the only figure generate_report computes itself:
  \<^verbatim>\<open>sum([data['savings_percentage'] for data in results.values()]) / len(results)\<close>.
\<close>

definition avg_azure_savings :: "(string \<times> comparison) list \<Rightarrow> py_error + real" where
  "avg_azure_savings results =
     truediv (sum_list (map (\<lambda>data. savings_percentage (snd data)) results))
             (real (length results))"

definition generate_report_avg :: "py_error + real" where
  "generate_report_avg = and_then compare_all_scenarios avg_azure_savings"

section \<open>The five cost categories over the class-based breakdown\<close>

text \<open>
  The class-based script stores one entry per service, not per category. The
  specification groups the services into five categories; the grouping below is the one
  of the simpler script (Lambda and API Gateway are compute, S3 and CloudFront storage,
  CloudWatch and OpenSearch logging), and the logging group is also the numerator of
  \<^verbatim>\<open>logging_percentage\<close> in both methods.
\<close>

definition aws_compute :: "aws_costs \<Rightarrow> real" where
  "aws_compute c = lambda_total c + api_gateway c"

definition aws_storage :: "aws_costs \<Rightarrow> real" where
  "aws_storage c = s3_cloudfront_total c"

definition aws_database :: "aws_costs \<Rightarrow> real" where
  "aws_database c = database c"

definition aws_logging :: "aws_costs \<Rightarrow> real" where
  "aws_logging c = cloudwatch_total c + opensearch c"

definition aws_additional :: "aws_costs \<Rightarrow> real" where
  "aws_additional c = sum_list (map snd (additional c))"

definition azure_compute :: "azure_costs \<Rightarrow> real" where
  "azure_compute c = functions_total c + apim c"

definition azure_storage :: "azure_costs \<Rightarrow> real" where
  "azure_storage c = static_web_apps_total c"

definition azure_database :: "azure_costs \<Rightarrow> real" where
  "azure_database c = cosmos_db c"

definition azure_logging :: "azure_costs \<Rightarrow> real" where
  "azure_logging c = monitor_total c + search c"

definition azure_additional_total :: "azure_costs \<Rightarrow> real" where
  "azure_additional_total c = sum_list (map snd (azure_additional c))"

section \<open>Well-formed scenarios\<close>

text \<open>
  The keys the two methods read with \<^verbatim>\<open>scenario[...]\<close>, the keys they read with a default,
  and two checks on a dictionary over a list of keys: that every key is there, and that
  no entry under these keys is negative.
\<close>

definition aws_required :: "string list" where
  "aws_required =
     [''requests_per_month'', ''avg_duration_seconds'', ''memory_gb'', ''storage_gb'',
      ''cdn_transfer_gb'', ''database_cost'', ''log_volume_gb'', ''metrics_count'',
      ''alarms_count'', ''opensearch_cost'']"

definition azure_required :: "string list" where
  "azure_required =
     [''requests_per_month'', ''avg_duration_seconds'', ''memory_gb'', ''apim_tier_cost'',
      ''storage_gb'', ''cdn_transfer_gb'', ''cosmos_ru_per_second'', ''log_volume_gb'',
      ''search_tier_cost'']"

definition aws_optional :: "string list" where
  "aws_optional = [''cognito_cost'', ''notification_cost'', ''waf_cost'', ''data_transfer_cost'']"

definition azure_optional :: "string list" where
  "azure_optional =
     [''ad_b2c_cost'', ''logic_apps_cost'', ''app_gateway_cost'', ''key_vault_cost'',
      ''data_transfer_cost'']"

definition has_fields :: "scenario \<Rightarrow> string list \<Rightarrow> bool" where
  "has_fields s ks = list_all (\<lambda>k. s k \<noteq> None) ks"

definition non_negative :: "scenario \<Rightarrow> string list \<Rightarrow> bool" where
  "non_negative s ks = list_all (\<lambda>k. case s k of None \<Rightarrow> True | Some v \<Rightarrow> 0 \<le> v) ks"

section \<open>An input for both scripts\<close>

text \<open>
  The two scripts read different keys: the simpler one reads \<^verbatim>\<open>monthly_requests\<close>,
  \<^verbatim>\<open>data_transfer_gb\<close> and \<^verbatim>\<open>users\<close>, the class-based one \<^verbatim>\<open>requests_per_month\<close> and
  \<^verbatim>\<open>cdn_transfer_gb\<close>. To compare them on one scenario, the class-based low-usage
  dictionary is extended by the simpler script's three keys, with the same figures and
  the 100 users its name announces. This dictionary is an input of the comparison, it is
  not in either script.
\<close>

definition common_low_usage :: scenario where
  "common_low_usage =
     low_usage ++ map_of
       [(''monthly_requests'', 50000), (''data_transfer_gb'', 100), (''users'', 100)]"

text \<open>
  The defaults of the \<^verbatim>\<open>scenario.get\<close> calls, lines 132 to 135 and lines 204 to 208, and
  the value a method reads under a key: the entry when the key is there, else the default
  when the key is one of the method's named additional fees.
\<close>

definition aws_defaults :: "(string \<times> real) list" where
  "aws_defaults =
     [(''cognito_cost'', 0), (''notification_cost'', 2), (''waf_cost'', 6),
      (''data_transfer_cost'', 18)]"

definition azure_defaults :: "(string \<times> real) list" where
  "azure_defaults =
     [(''ad_b2c_cost'', 0), (''logic_apps_cost'', 1), (''app_gateway_cost'', 18),
      (''key_vault_cost'', 1), (''data_transfer_cost'', 16)]"

definition read_field :: "(string \<times> real) list \<Rightarrow> scenario \<Rightarrow> string \<Rightarrow> real option" where
  "read_field defaults s k = (case s k of Some v \<Rightarrow> Some v | None \<Rightarrow> map_of defaults k)"

section \<open>Basic facts about the dictionary operations\<close>

lemma and_then_Inr [simp]: "and_then (Inr v) f = f v"
  by (simp add: and_then_def)

lemma and_then_Inl [simp]: "and_then (Inl e) f = Inl e"
  by (simp add: and_then_def)

lemma and_then_eq_Inr: "and_then m f = Inr y \<longleftrightarrow> (\<exists>v. m = Inr v \<and> f v = Inr y)"
  by (cases m) simp_all

lemma getitem_Some [simp]: "d k = Some v \<Longrightarrow> getitem d k = Inr v"
  by (simp add: getitem_def)

lemma getitem_None [simp]: "d k = None \<Longrightarrow> getitem d k = Inl (KeyError k)"
  by (simp add: getitem_def)

lemma getitem_eq_Inr: "getitem d k = Inr v \<longleftrightarrow> d k = Some v"
  by (simp add: getitem_def split: option.splits)

lemma truediv_eq_Inr: "truediv a b = Inr q \<longleftrightarrow> b \<noteq> 0 \<and> q = a / b"
  by (auto simp: truediv_def)

lemma truediv_eq_Inl: "truediv a b = Inl e \<longleftrightarrow> b = 0 \<and> e = ZeroDivisionError"
  by (auto simp: truediv_def)

section \<open>What the two methods return\<close>

lemma aws_breakdown_Some:
  assumes "s ''requests_per_month'' = Some r" "s ''avg_duration_seconds'' = Some d"
    "s ''memory_gb'' = Some m" "s ''storage_gb'' = Some st" "s ''cdn_transfer_gb'' = Some tr"
    "s ''database_cost'' = Some db" "s ''log_volume_gb'' = Some lg"
    "s ''metrics_count'' = Some me" "s ''alarms_count'' = Some al"
    "s ''opensearch_cost'' = Some os"
  shows "aws_breakdown s = Inr
    \<lparr> lambda_requests = max 0 ((r - 1000000) * aws_pricing_lambda_requests),
      lambda_execution = max 0 ((r * d * m - 400000) * aws_pricing_lambda_gb_seconds),
      lambda_total = max 0 ((r - 1000000) * aws_pricing_lambda_requests)
                     + max 0 ((r * d * m - 400000) * aws_pricing_lambda_gb_seconds),
      api_gateway = r * aws_pricing_api_gateway_requests,
      s3_cloudfront_storage = st * aws_pricing_s3_storage,
      s3_cloudfront_transfer = tr * aws_pricing_cloudfront_transfer,
      s3_cloudfront_total = st * aws_pricing_s3_storage + tr * aws_pricing_cloudfront_transfer,
      database = db,
      cloudwatch_ingestion = lg * aws_pricing_cloudwatch_ingestion,
      cloudwatch_storage = lg * aws_pricing_cloudwatch_storage,
      cloudwatch_metrics = me * aws_pricing_cloudwatch_metrics,
      cloudwatch_alarms = al * aws_pricing_cloudwatch_alarms,
      cloudwatch_total = lg * aws_pricing_cloudwatch_ingestion + lg * aws_pricing_cloudwatch_storage
                         + me * aws_pricing_cloudwatch_metrics + al * aws_pricing_cloudwatch_alarms,
      opensearch = os,
      additional =
       [(''cognito'', get_default s ''cognito_cost'' 0),
        (''sns_ses'', get_default s ''notification_cost'' 2),
        (''waf'', get_default s ''waf_cost'' 6),
        (''data_transfer'', get_default s ''data_transfer_cost'' 18)] \<rparr>"
  unfolding aws_breakdown_def Let_def using assms by simp

lemma aws_breakdown_keys:
  assumes "aws_breakdown s = Inr c"
  shows "\<exists>r d m st tr db lg me al os. s ''requests_per_month'' = Some r \<and> s ''avg_duration_seconds'' = Some d
    \<and> s ''memory_gb'' = Some m \<and> s ''storage_gb'' = Some st \<and> s ''cdn_transfer_gb'' = Some tr
    \<and> s ''database_cost'' = Some db \<and> s ''log_volume_gb'' = Some lg
    \<and> s ''metrics_count'' = Some me \<and> s ''alarms_count'' = Some al
    \<and> s ''opensearch_cost'' = Some os"
  using assms unfolding aws_breakdown_def Let_def and_then_eq_Inr getitem_eq_Inr
  by blast

lemma aws_breakdown_InrE:
  assumes "aws_breakdown s = Inr c"
  obtains r d m st tr db lg me al os where
    "s ''requests_per_month'' = Some r" "s ''avg_duration_seconds'' = Some d"
    "s ''memory_gb'' = Some m" "s ''storage_gb'' = Some st" "s ''cdn_transfer_gb'' = Some tr"
    "s ''database_cost'' = Some db" "s ''log_volume_gb'' = Some lg"
    "s ''metrics_count'' = Some me" "s ''alarms_count'' = Some al"
    "s ''opensearch_cost'' = Some os"
    "lambda_requests c = max 0 ((r - 1000000) * aws_pricing_lambda_requests)"
    "lambda_execution c = max 0 ((r * d * m - 400000) * aws_pricing_lambda_gb_seconds)"
    "lambda_total c = lambda_requests c + lambda_execution c"
    "api_gateway c = r * aws_pricing_api_gateway_requests"
    "s3_cloudfront_storage c = st * aws_pricing_s3_storage"
    "s3_cloudfront_transfer c = tr * aws_pricing_cloudfront_transfer"
    "s3_cloudfront_total c = s3_cloudfront_storage c + s3_cloudfront_transfer c"
    "database c = db"
    "cloudwatch_ingestion c = lg * aws_pricing_cloudwatch_ingestion"
    "cloudwatch_storage c = lg * aws_pricing_cloudwatch_storage"
    "cloudwatch_metrics c = me * aws_pricing_cloudwatch_metrics"
    "cloudwatch_alarms c = al * aws_pricing_cloudwatch_alarms"
    "cloudwatch_total c = cloudwatch_ingestion c + cloudwatch_storage c
                          + cloudwatch_metrics c + cloudwatch_alarms c"
    "opensearch c = os"
    "aws_costs.additional c =
       [(''cognito'', get_default s ''cognito_cost'' 0),
        (''sns_ses'', get_default s ''notification_cost'' 2),
        (''waf'', get_default s ''waf_cost'' 6),
        (''data_transfer'', get_default s ''data_transfer_cost'' 18)]"
proof -
  from aws_breakdown_keys [OF assms] obtain r d m st tr db lg me al os where
    k: "s ''requests_per_month'' = Some r" "s ''avg_duration_seconds'' = Some d"
    "s ''memory_gb'' = Some m" "s ''storage_gb'' = Some st" "s ''cdn_transfer_gb'' = Some tr"
    "s ''database_cost'' = Some db" "s ''log_volume_gb'' = Some lg"
    "s ''metrics_count'' = Some me" "s ''alarms_count'' = Some al"
    "s ''opensearch_cost'' = Some os"
    by blast
  from aws_breakdown_Some [OF k] assms have c: "c = \<lparr> lambda_requests = max 0 ((r - 1000000) * aws_pricing_lambda_requests),
      lambda_execution = max 0 ((r * d * m - 400000) * aws_pricing_lambda_gb_seconds),
      lambda_total = max 0 ((r - 1000000) * aws_pricing_lambda_requests)
                     + max 0 ((r * d * m - 400000) * aws_pricing_lambda_gb_seconds),
      api_gateway = r * aws_pricing_api_gateway_requests,
      s3_cloudfront_storage = st * aws_pricing_s3_storage,
      s3_cloudfront_transfer = tr * aws_pricing_cloudfront_transfer,
      s3_cloudfront_total = st * aws_pricing_s3_storage + tr * aws_pricing_cloudfront_transfer,
      database = db,
      cloudwatch_ingestion = lg * aws_pricing_cloudwatch_ingestion,
      cloudwatch_storage = lg * aws_pricing_cloudwatch_storage,
      cloudwatch_metrics = me * aws_pricing_cloudwatch_metrics,
      cloudwatch_alarms = al * aws_pricing_cloudwatch_alarms,
      cloudwatch_total = lg * aws_pricing_cloudwatch_ingestion + lg * aws_pricing_cloudwatch_storage
                         + me * aws_pricing_cloudwatch_metrics + al * aws_pricing_cloudwatch_alarms,
      opensearch = os,
      additional =
       [(''cognito'', get_default s ''cognito_cost'' 0),
        (''sns_ses'', get_default s ''notification_cost'' 2),
        (''waf'', get_default s ''waf_cost'' 6),
        (''data_transfer'', get_default s ''data_transfer_cost'' 18)] \<rparr>"
    by simp
  show thesis
    by (rule that [OF k]) (simp_all add: c)
qed

lemma azure_breakdown_Some:
  assumes "s ''requests_per_month'' = Some r" "s ''avg_duration_seconds'' = Some d"
    "s ''memory_gb'' = Some m" "s ''apim_tier_cost'' = Some ap" "s ''storage_gb'' = Some st"
    "s ''cdn_transfer_gb'' = Some tr" "s ''cosmos_ru_per_second'' = Some ru"
    "s ''log_volume_gb'' = Some lg" "s ''search_tier_cost'' = Some se"
  shows "azure_breakdown s = Inr
    \<lparr> functions_requests = max 0 ((r - 1000000) * azure_pricing_functions_requests),
      functions_execution = max 0 ((r * d * m - 400000) * azure_pricing_functions_gb_seconds),
      functions_total = max 0 ((r - 1000000) * azure_pricing_functions_requests)
                        + max 0 ((r * d * m - 400000) * azure_pricing_functions_gb_seconds),
      apim = ap,
      static_web_apps_base = azure_pricing_static_web_apps_standard,
      static_web_apps_storage = st * azure_pricing_static_web_apps_storage,
      static_web_apps_bandwidth = tr * azure_pricing_static_web_apps_bandwidth,
      static_web_apps_total = azure_pricing_static_web_apps_standard
                              + st * azure_pricing_static_web_apps_storage
                              + tr * azure_pricing_static_web_apps_bandwidth,
      cosmos_db = ru * azure_pricing_cosmos_db_ru_per_second * 730,
      monitor_ingestion = lg * azure_pricing_monitor_ingestion,
      monitor_retention = lg * azure_pricing_monitor_retention_basic,
      monitor_total = lg * azure_pricing_monitor_ingestion
                      + lg * azure_pricing_monitor_retention_basic,
      search = se,
      azure_additional =
       [(''ad_b2c'', get_default s ''ad_b2c_cost'' 0),
        (''logic_apps'', get_default s ''logic_apps_cost'' 1),
        (''app_gateway'', get_default s ''app_gateway_cost'' 18),
        (''key_vault'', get_default s ''key_vault_cost'' 1),
        (''data_transfer'', get_default s ''data_transfer_cost'' 16)] \<rparr>"
  unfolding azure_breakdown_def Let_def using assms by simp

lemma azure_breakdown_keys:
  assumes "azure_breakdown s = Inr c"
  shows "\<exists>r d m ap st tr ru lg se. s ''requests_per_month'' = Some r
    \<and> s ''avg_duration_seconds'' = Some d \<and> s ''memory_gb'' = Some m
    \<and> s ''apim_tier_cost'' = Some ap \<and> s ''storage_gb'' = Some st
    \<and> s ''cdn_transfer_gb'' = Some tr \<and> s ''cosmos_ru_per_second'' = Some ru
    \<and> s ''log_volume_gb'' = Some lg \<and> s ''search_tier_cost'' = Some se"
  using assms unfolding azure_breakdown_def Let_def and_then_eq_Inr getitem_eq_Inr
  by blast

lemma azure_breakdown_InrE:
  assumes "azure_breakdown s = Inr c"
  obtains r d m ap st tr ru lg se where
    "s ''requests_per_month'' = Some r" "s ''avg_duration_seconds'' = Some d"
    "s ''memory_gb'' = Some m" "s ''apim_tier_cost'' = Some ap" "s ''storage_gb'' = Some st"
    "s ''cdn_transfer_gb'' = Some tr" "s ''cosmos_ru_per_second'' = Some ru"
    "s ''log_volume_gb'' = Some lg" "s ''search_tier_cost'' = Some se"
    "functions_requests c = max 0 ((r - 1000000) * azure_pricing_functions_requests)"
    "functions_execution c = max 0 ((r * d * m - 400000) * azure_pricing_functions_gb_seconds)"
    "functions_total c = functions_requests c + functions_execution c"
    "apim c = ap"
    "static_web_apps_base c = azure_pricing_static_web_apps_standard"
    "static_web_apps_storage c = st * azure_pricing_static_web_apps_storage"
    "static_web_apps_bandwidth c = tr * azure_pricing_static_web_apps_bandwidth"
    "static_web_apps_total c = static_web_apps_base c + static_web_apps_storage c
                               + static_web_apps_bandwidth c"
    "cosmos_db c = ru * azure_pricing_cosmos_db_ru_per_second * 730"
    "monitor_ingestion c = lg * azure_pricing_monitor_ingestion"
    "monitor_retention c = lg * azure_pricing_monitor_retention_basic"
    "monitor_total c = monitor_ingestion c + monitor_retention c"
    "search c = se"
    "azure_additional c =
       [(''ad_b2c'', get_default s ''ad_b2c_cost'' 0),
        (''logic_apps'', get_default s ''logic_apps_cost'' 1),
        (''app_gateway'', get_default s ''app_gateway_cost'' 18),
        (''key_vault'', get_default s ''key_vault_cost'' 1),
        (''data_transfer'', get_default s ''data_transfer_cost'' 16)]"
proof -
  from azure_breakdown_keys [OF assms] obtain r d m ap st tr ru lg se where
    k: "s ''requests_per_month'' = Some r" "s ''avg_duration_seconds'' = Some d"
    "s ''memory_gb'' = Some m" "s ''apim_tier_cost'' = Some ap" "s ''storage_gb'' = Some st"
    "s ''cdn_transfer_gb'' = Some tr" "s ''cosmos_ru_per_second'' = Some ru"
    "s ''log_volume_gb'' = Some lg" "s ''search_tier_cost'' = Some se"
    by blast
  from azure_breakdown_Some [OF k] assms have c: "Inr c = azure_breakdown s"
    "azure_breakdown s = Inr
    \<lparr> functions_requests = max 0 ((r - 1000000) * azure_pricing_functions_requests),
      functions_execution = max 0 ((r * d * m - 400000) * azure_pricing_functions_gb_seconds),
      functions_total = max 0 ((r - 1000000) * azure_pricing_functions_requests)
                        + max 0 ((r * d * m - 400000) * azure_pricing_functions_gb_seconds),
      apim = ap,
      static_web_apps_base = azure_pricing_static_web_apps_standard,
      static_web_apps_storage = st * azure_pricing_static_web_apps_storage,
      static_web_apps_bandwidth = tr * azure_pricing_static_web_apps_bandwidth,
      static_web_apps_total = azure_pricing_static_web_apps_standard
                              + st * azure_pricing_static_web_apps_storage
                              + tr * azure_pricing_static_web_apps_bandwidth,
      cosmos_db = ru * azure_pricing_cosmos_db_ru_per_second * 730,
      monitor_ingestion = lg * azure_pricing_monitor_ingestion,
      monitor_retention = lg * azure_pricing_monitor_retention_basic,
      monitor_total = lg * azure_pricing_monitor_ingestion
                      + lg * azure_pricing_monitor_retention_basic,
      search = se,
      azure_additional =
       [(''ad_b2c'', get_default s ''ad_b2c_cost'' 0),
        (''logic_apps'', get_default s ''logic_apps_cost'' 1),
        (''app_gateway'', get_default s ''app_gateway_cost'' 18),
        (''key_vault'', get_default s ''key_vault_cost'' 1),
        (''data_transfer'', get_default s ''data_transfer_cost'' 16)] \<rparr>"
    by simp_all
  from c have c': "c = \<lparr> functions_requests = max 0 ((r - 1000000) * azure_pricing_functions_requests),
      functions_execution = max 0 ((r * d * m - 400000) * azure_pricing_functions_gb_seconds),
      functions_total = max 0 ((r - 1000000) * azure_pricing_functions_requests)
                        + max 0 ((r * d * m - 400000) * azure_pricing_functions_gb_seconds),
      apim = ap,
      static_web_apps_base = azure_pricing_static_web_apps_standard,
      static_web_apps_storage = st * azure_pricing_static_web_apps_storage,
      static_web_apps_bandwidth = tr * azure_pricing_static_web_apps_bandwidth,
      static_web_apps_total = azure_pricing_static_web_apps_standard
                              + st * azure_pricing_static_web_apps_storage
                              + tr * azure_pricing_static_web_apps_bandwidth,
      cosmos_db = ru * azure_pricing_cosmos_db_ru_per_second * 730,
      monitor_ingestion = lg * azure_pricing_monitor_ingestion,
      monitor_retention = lg * azure_pricing_monitor_retention_basic,
      monitor_total = lg * azure_pricing_monitor_ingestion
                      + lg * azure_pricing_monitor_retention_basic,
      search = se,
      azure_additional =
       [(''ad_b2c'', get_default s ''ad_b2c_cost'' 0),
        (''logic_apps'', get_default s ''logic_apps_cost'' 1),
        (''app_gateway'', get_default s ''app_gateway_cost'' 18),
        (''key_vault'', get_default s ''key_vault_cost'' 1),
        (''data_transfer'', get_default s ''data_transfer_cost'' 16)] \<rparr>"
    by simp
  show thesis
    by (rule that [OF k]) (simp_all add: c')
qed

lemma calculate_aws_costs_eq_Inr:
  "calculate_aws_costs s = Inr r \<longleftrightarrow>
     (\<exists>c. aws_breakdown s = Inr c \<and> aws_total_cost c \<noteq> 0 \<and>
       r = \<lparr> breakdown = c, total = aws_total_cost c,
             logging_percentage =
               (cloudwatch_total c + opensearch c) / aws_total_cost c * 100 \<rparr>)"
  unfolding calculate_aws_costs_def Let_def and_then_eq_Inr truediv_eq_Inr by auto

lemma calculate_azure_costs_eq_Inr:
  "calculate_azure_costs s = Inr r \<longleftrightarrow>
     (\<exists>c. azure_breakdown s = Inr c \<and> azure_total_cost c \<noteq> 0 \<and>
       r = \<lparr> breakdown = c, total = azure_total_cost c,
             logging_percentage =
               (monitor_total c + search c) / azure_total_cost c * 100 \<rparr>)"
  unfolding calculate_azure_costs_def Let_def and_then_eq_Inr truediv_eq_Inr by auto

lemma aws_breakdown_low_usage:
  "aws_breakdown low_usage =
     Inr \<lparr> lambda_requests = 0, lambda_execution = 0, lambda_total = 0,
           api_gateway = 0.175,
           s3_cloudfront_storage = 1.15, s3_cloudfront_transfer = 8.5,
           s3_cloudfront_total = 9.65,
           database = 65,
           cloudwatch_ingestion = 5, cloudwatch_storage = 0.3,
           cloudwatch_metrics = 15, cloudwatch_alarms = 1, cloudwatch_total = 21.3,
           opensearch = 28,
           additional = [(''cognito'', 0), (''sns_ses'', 2), (''waf'', 6),
                         (''data_transfer'', 18)] \<rparr>"
  by (simp add: aws_breakdown_def low_usage_def getitem_def get_default_def pricing Let_def)

lemma calculate_aws_costs_low_usage:
  "calculate_aws_costs low_usage =
     Inr \<lparr> breakdown =
             \<lparr> lambda_requests = 0, lambda_execution = 0, lambda_total = 0,
               api_gateway = 0.175,
               s3_cloudfront_storage = 1.15, s3_cloudfront_transfer = 8.5,
               s3_cloudfront_total = 9.65,
               database = 65,
               cloudwatch_ingestion = 5, cloudwatch_storage = 0.3,
               cloudwatch_metrics = 15, cloudwatch_alarms = 1, cloudwatch_total = 21.3,
               opensearch = 28,
               additional = [(''cognito'', 0), (''sns_ses'', 2), (''waf'', 6),
                             (''data_transfer'', 18)] \<rparr>,
           total = 150.125,
           logging_percentage = 49.3 / 150.125 * 100 \<rparr>"
  by (simp add: calculate_aws_costs_def aws_breakdown_low_usage aws_total_cost_def
      truediv_def Let_def)

lemma azure_breakdown_low_usage:
  "azure_breakdown low_usage =
     Inr \<lparr> functions_requests = 0, functions_execution = 0, functions_total = 0,
           apim = 48,
           static_web_apps_base = 9, static_web_apps_storage = 9,
           static_web_apps_bandwidth = 15, static_web_apps_total = 33,
           cosmos_db = 5840,
           monitor_ingestion = 2.7, monitor_retention = 1.2, monitor_total = 3.9,
           search = 25,
           azure_additional = [(''ad_b2c'', 0), (''logic_apps'', 1), (''app_gateway'', 18),
                               (''key_vault'', 1), (''data_transfer'', 16)] \<rparr>"
  by (simp add: azure_breakdown_def low_usage_def getitem_def get_default_def pricing Let_def)

lemma calculate_azure_costs_low_usage:
  "calculate_azure_costs low_usage =
     Inr \<lparr> breakdown =
             \<lparr> functions_requests = 0, functions_execution = 0, functions_total = 0,
               apim = 48,
               static_web_apps_base = 9, static_web_apps_storage = 9,
               static_web_apps_bandwidth = 15, static_web_apps_total = 33,
               cosmos_db = 5840,
               monitor_ingestion = 2.7, monitor_retention = 1.2, monitor_total = 3.9,
               search = 25,
               azure_additional = [(''ad_b2c'', 0), (''logic_apps'', 1), (''app_gateway'', 18),
                                   (''key_vault'', 1), (''data_transfer'', 16)] \<rparr>,
           total = 5985.9,
           logging_percentage = 28.9 / 5985.9 * 100 \<rparr>"
  by (simp add: calculate_azure_costs_def azure_breakdown_low_usage azure_total_cost_def
      truediv_def Let_def)

lemma acc_calculate_aws_costs_acc_low:
  "acc_calculate_aws_costs acc_low =
     Inr \<lparr> compute = 0.1575, storage = 18.15, database = 65, logging = 33.3,
           total = 136.6075, logging_pct = 33.3 / 136.6075 * 100 \<rparr>"
  by (simp add: acc_calculate_aws_costs_def acc_low_def getitem_def truediv_def Let_def)

lemma acc_calculate_azure_costs_acc_low:
  "acc_calculate_azure_costs acc_low =
     Inr \<lparr> compute = 48, storage = 48, database = 5840, logging = 28.9,
           total = 5979.9, logging_pct = 28.9 / 5979.9 * 100 \<rparr>"
  by (simp add: acc_calculate_azure_costs_def acc_low_def getitem_def truediv_def Let_def)

section \<open>The claims\<close>

subsection \<open>The low-usage figures\<close>

text \<open>
  C8. The low-usage scenario of generate_scenarios has 50000 requests of 2 seconds at
  0.5 GB, 50 GB of storage, 100 GB of transfer and 10 GB of logs. On it calculate_aws_costs
  returns a breakdown whose two Lambda components are both 0, so that the compute cost
  (Lambda and API Gateway) is the gateway's per-request fee alone, 50000 times 0.0000035,
  and whose database and OpenSearch entries are 65 and 28; each figure is within 0.01 of
  the documented one.
\<close>

theorem low_usage_aws_figures:
  "low_usage ''requests_per_month'' = Some 50000 \<and>
   low_usage ''avg_duration_seconds'' = Some 2 \<and>
   low_usage ''memory_gb'' = Some 0.5 \<and>
   low_usage ''storage_gb'' = Some 50 \<and>
   low_usage ''cdn_transfer_gb'' = Some 100 \<and>
   low_usage ''log_volume_gb'' = Some 10 \<and>
   (\<exists>r. calculate_aws_costs low_usage = Inr r \<and>
        lambda_requests (breakdown r) = 0 \<and>
        lambda_execution (breakdown r) = 0 \<and>
        aws_compute (breakdown r) = 50000 * aws_pricing_api_gateway_requests \<and>
        \<bar>aws_compute (breakdown r) - 0.175\<bar> \<le> 0.01 \<and>
        \<bar>aws_database (breakdown r) - 65\<bar> \<le> 0.01 \<and>
        \<bar>opensearch (breakdown r) - 28\<bar> \<le> 0.01)"
proof -
  have "low_usage ''requests_per_month'' = Some 50000"
    "low_usage ''avg_duration_seconds'' = Some 2"
    "low_usage ''memory_gb'' = Some 0.5"
    "low_usage ''storage_gb'' = Some 50"
    "low_usage ''cdn_transfer_gb'' = Some 100"
    "low_usage ''log_volume_gb'' = Some 10"
    by (simp_all add: low_usage_def)
  then show ?thesis
    by (simp add: calculate_aws_costs_low_usage aws_compute_def aws_database_def pricing)
qed

subsection \<open>The grand total\<close>



subsection \<open>The compute cost\<close>

text \<open>
  C1 as stated fails for AWS: the API Gateway fee is charged per request, it is no fixed
  tier price. On the low-usage scenario both Lambda components are 0 and the compute
  cost is 0.175; with 100000 requests and every other entry unchanged, so in the same
  tier, both Lambda components are still 0 and the compute cost is 0.35.
\<close>

theorem aws_gateway_fee_not_fixed_counterexample:
  "map_sum id (lambda_total \<circ> breakdown) (calculate_aws_costs low_usage) = Inr 0 \<and>
   map_sum id (aws_compute \<circ> breakdown) (calculate_aws_costs low_usage) = Inr 0.175 \<and>
   map_sum id (lambda_total \<circ> breakdown)
     (calculate_aws_costs (low_usage(''requests_per_month'' \<mapsto> 100000))) = Inr 0 \<and>
   map_sum id (aws_compute \<circ> breakdown)
     (calculate_aws_costs (low_usage(''requests_per_month'' \<mapsto> 100000))) = Inr 0.35"
proof -
  have "calculate_aws_costs (low_usage(''requests_per_month'' \<mapsto> 100000)) =
     Inr \<lparr> breakdown =
             \<lparr> lambda_requests = 0, lambda_execution = 0, lambda_total = 0,
               api_gateway = 0.35,
               s3_cloudfront_storage = 1.15, s3_cloudfront_transfer = 8.5,
               s3_cloudfront_total = 9.65,
               database = 65,
               cloudwatch_ingestion = 5, cloudwatch_storage = 0.3,
               cloudwatch_metrics = 15, cloudwatch_alarms = 1, cloudwatch_total = 21.3,
               opensearch = 28,
               additional = [(''cognito'', 0), (''sns_ses'', 2), (''waf'', 6),
                             (''data_transfer'', 18)] \<rparr>,
           total = 150.3,
           logging_percentage = 49.3 / 150.3 * 100 \<rparr>"
    by (simp add: calculate_aws_costs_def aws_breakdown_def low_usage_def getitem_def
        get_default_def pricing aws_total_cost_def truediv_def Let_def)
  then show ?thesis
    by (simp add: calculate_aws_costs_low_usage aws_compute_def)
qed

text \<open>
  C1, amended. The compute cost is the clamped per-request charge plus the clamped
  per-GB-second charge, with resource seconds the product of requests, average duration
  and memory, plus, for Azure, the API Management tier price the scenario carries and,
  for AWS, the API Gateway fee of 0.0000035 per request. With at most 1000000 requests
  the per-request component is exactly 0 for both providers.
\<close>

theorem compute_cost_formula:
  assumes "s ''requests_per_month'' = Some requests"
    and "s ''avg_duration_seconds'' = Some duration"
    and "s ''memory_gb'' = Some memory"
  shows
    "(calculate_aws_costs s = Inr r \<longrightarrow>
        aws_compute (breakdown r) =
          max 0 ((requests - 1000000) * aws_pricing_lambda_requests)
          + max 0 ((requests * duration * memory - 400000) * aws_pricing_lambda_gb_seconds)
          + requests * aws_pricing_api_gateway_requests \<and>
        lambda_requests (breakdown r) =
          max 0 ((requests - 1000000) * aws_pricing_lambda_requests) \<and>
        (requests \<le> 1000000 \<longrightarrow> lambda_requests (breakdown r) = 0)) \<and>
     (calculate_azure_costs s = Inr r' \<and> s ''apim_tier_cost'' = Some tier_price \<longrightarrow>
        azure_compute (breakdown r') =
          max 0 ((requests - 1000000) * azure_pricing_functions_requests)
          + max 0 ((requests * duration * memory - 400000) * azure_pricing_functions_gb_seconds)
          + tier_price \<and>
        functions_requests (breakdown r') =
          max 0 ((requests - 1000000) * azure_pricing_functions_requests) \<and>
        (requests \<le> 1000000 \<longrightarrow> functions_requests (breakdown r') = 0))"
proof (intro conjI impI)
  assume "calculate_aws_costs s = Inr r"
  then have b: "aws_breakdown s = Inr (breakdown r)"
    by (auto simp: calculate_aws_costs_eq_Inr)
  from b assms show 1: "aws_compute (breakdown r) =
          max 0 ((requests - 1000000) * aws_pricing_lambda_requests)
          + max 0 ((requests * duration * memory - 400000) * aws_pricing_lambda_gb_seconds)
          + requests * aws_pricing_api_gateway_requests"
    by (elim aws_breakdown_InrE) (simp add: aws_compute_def)
  from b assms show 2: "lambda_requests (breakdown r) =
          max 0 ((requests - 1000000) * aws_pricing_lambda_requests)"
    by (elim aws_breakdown_InrE) simp
  assume "requests \<le> 1000000"
  then have "(requests - 1000000) * aws_pricing_lambda_requests \<le> 0"
    by (simp add: pricing mult_le_0_iff)
  with 2 show "lambda_requests (breakdown r) = 0" by simp
next
  assume "calculate_azure_costs s = Inr r' \<and> s ''apim_tier_cost'' = Some tier_price"
  then have b: "azure_breakdown s = Inr (breakdown r')"
    and t: "s ''apim_tier_cost'' = Some tier_price"
    by (auto simp: calculate_azure_costs_eq_Inr)
  from b t assms show "azure_compute (breakdown r') =
          max 0 ((requests - 1000000) * azure_pricing_functions_requests)
          + max 0 ((requests * duration * memory - 400000) * azure_pricing_functions_gb_seconds)
          + tier_price"
    by (elim azure_breakdown_InrE) (simp add: azure_compute_def)
  from b assms show 2: "functions_requests (breakdown r') =
          max 0 ((requests - 1000000) * azure_pricing_functions_requests)"
    by (elim azure_breakdown_InrE) simp
  assume "requests \<le> 1000000"
  then have "(requests - 1000000) * azure_pricing_functions_requests \<le> 0"
    by (simp add: pricing mult_le_0_iff)
  with 2 show "functions_requests (breakdown r') = 0" by simp
qed

theorem compute_cost_formula_witness:
  "\<exists>r r'.
     calculate_aws_costs low_usage = Inr r \<and>
     aws_compute (breakdown r) = 0.175 \<and>
     lambda_requests (breakdown r) = 0 \<and>
     calculate_azure_costs low_usage = Inr r' \<and>
     azure_compute (breakdown r') = 48 \<and>
     functions_requests (breakdown r') = 0"
proof -
  obtain r r' where
    h: "calculate_aws_costs low_usage = Inr r" "calculate_azure_costs low_usage = Inr r'"
    using calculate_aws_costs_low_usage calculate_azure_costs_low_usage by blast
  have k: "low_usage ''requests_per_month'' = Some 50000"
    "low_usage ''avg_duration_seconds'' = Some 2"
    "low_usage ''memory_gb'' = Some 0.5"
    "low_usage ''apim_tier_cost'' = Some 48"
    by (simp_all add: low_usage_def)
  from compute_cost_formula [OF k(1-3), where r = r and r' = r' and tier_price = 48] h k(4)
  show ?thesis
    by (simp add: pricing)
qed

subsection \<open>The database cost\<close>

lemma acc_calculate_aws_costs_database:
  assumes "acc_calculate_aws_costs s = Inr a" and "s ''users'' = Some users"
  shows "simple_report.database a =
           (if users \<le> 100 then 65 else if users \<le> 1000 then 156 else 625)"
  using assms unfolding acc_calculate_aws_costs_def Let_def and_then_eq_Inr getitem_eq_Inr
  by auto

lemma acc_calculate_azure_costs_database:
  assumes "acc_calculate_azure_costs s = Inr a" and "s ''users'' = Some users"
  shows "simple_report.database a =
           (if users \<le> 100 then 1000 else if users \<le> 1000 then 5000 else 25000)
           * 0.008 * 730"
  using assms unfolding acc_calculate_azure_costs_def Let_def and_then_eq_Inr getitem_eq_Inr
  by auto

text \<open>
  C3. In the simpler script the AWS database cost is a step function of the user count
  with three fixed prices, 65 up to 100 users, 156 above 100 and up to 1000, 625 above
  1000, the boundaries 100 and 1000 belonging to the lower tier. The request-unit-priced
  database of the class-based Azure method costs the provisioned request units times the
  unit price 0.008 times 730 hours; the simpler script's Azure database cost is the same
  formula at 1000, 5000 or 25000 request units, chosen by the same user-count tiers.
\<close>

theorem database_cost_tiers:
  "(acc_calculate_aws_costs s = Inr a \<and> s ''users'' = Some users \<longrightarrow>
      (users \<le> 100 \<longrightarrow> simple_report.database a = 65) \<and>
      (100 < users \<and> users \<le> 1000 \<longrightarrow> simple_report.database a = 156) \<and>
      (1000 < users \<longrightarrow> simple_report.database a = 625)) \<and>
   (calculate_azure_costs t = Inr r \<and> t ''cosmos_ru_per_second'' = Some ru \<longrightarrow>
      azure_database (breakdown r) = ru * azure_pricing_cosmos_db_ru_per_second * 730 \<and>
      azure_pricing_cosmos_db_ru_per_second = 0.008) \<and>
   (acc_calculate_azure_costs s = Inr a' \<and> s ''users'' = Some users \<longrightarrow>
      (users \<le> 100 \<longrightarrow> simple_report.database a' = 1000 * 0.008 * 730) \<and>
      (100 < users \<and> users \<le> 1000 \<longrightarrow> simple_report.database a' = 5000 * 0.008 * 730) \<and>
      (1000 < users \<longrightarrow> simple_report.database a' = 25000 * 0.008 * 730))"
proof (intro conjI impI)
  assume h: "calculate_azure_costs t = Inr r \<and> t ''cosmos_ru_per_second'' = Some ru"
  then have b: "azure_breakdown t = Inr (breakdown r)"
    by (auto simp: calculate_azure_costs_eq_Inr)
  from b h show "azure_database (breakdown r) = ru * azure_pricing_cosmos_db_ru_per_second * 730"
    by (elim azure_breakdown_InrE) (simp add: azure_database_def)
  show "azure_pricing_cosmos_db_ru_per_second = 0.008"
    by (simp add: pricing)
qed (auto dest: acc_calculate_aws_costs_database acc_calculate_azure_costs_database)

theorem database_cost_tiers_witness:
  "\<exists>a r a'.
     acc_calculate_aws_costs acc_low = Inr a \<and> acc_low ''users'' = Some 100 \<and>
     simple_report.database a = 65 \<and>
     calculate_azure_costs low_usage = Inr r \<and>
     low_usage ''cosmos_ru_per_second'' = Some 1000 \<and>
     azure_database (breakdown r) = 5840 \<and>
     acc_calculate_azure_costs acc_low = Inr a' \<and>
     simple_report.database a' = 5840"
proof -
  obtain a r a' where
    h: "acc_calculate_aws_costs acc_low = Inr a" "calculate_azure_costs low_usage = Inr r"
      "acc_calculate_azure_costs acc_low = Inr a'"
    using acc_calculate_aws_costs_acc_low calculate_azure_costs_low_usage
      acc_calculate_azure_costs_acc_low by blast
  have k: "acc_low ''users'' = Some 100" "low_usage ''cosmos_ru_per_second'' = Some 1000"
    by (simp_all add: acc_low_def low_usage_def)
  from database_cost_tiers [where s = acc_low and a = a and users = 100 and t = low_usage
      and r = r and ru = 1000 and a' = a'] h k
  show ?thesis by simp
qed

text \<open>The prices on and beside the two boundaries, evaluated on the script's first scenario.\<close>

lemma database_cost_at_boundaries:
  "map_sum id simple_report.database (acc_calculate_aws_costs (acc_low(''users'' \<mapsto> 100))) = Inr 65"
  "map_sum id simple_report.database (acc_calculate_aws_costs (acc_low(''users'' \<mapsto> 100.5))) = Inr 156"
  "map_sum id simple_report.database (acc_calculate_aws_costs (acc_low(''users'' \<mapsto> 1000))) = Inr 156"
  "map_sum id simple_report.database (acc_calculate_aws_costs (acc_low(''users'' \<mapsto> 1001))) = Inr 625"
  by (simp_all add: acc_calculate_aws_costs_def acc_low_def getitem_def truediv_def Let_def)

subsection \<open>Failure\<close>






text \<open>
  A scenario whose entries are all zero, the optional fees included, has the AWS total
  zero, and the call fails in the division.
\<close>

lemma calculate_aws_costs_all_zero:
  "calculate_aws_costs (map_of
     [(''requests_per_month'', 0), (''avg_duration_seconds'', 0), (''memory_gb'', 0),
      (''storage_gb'', 0), (''cdn_transfer_gb'', 0), (''log_volume_gb'', 0),
      (''metrics_count'', 0), (''alarms_count'', 0), (''database_cost'', 0),
      (''opensearch_cost'', 0), (''notification_cost'', 0), (''waf_cost'', 0),
      (''data_transfer_cost'', 0)]) = Inl ZeroDivisionError"
  by (simp add: calculate_aws_costs_def aws_breakdown_def getitem_def get_default_def
      pricing aws_total_cost_def truediv_def Let_def)

subsection \<open>Signs and the logging percentage\<close>

lemma get_default_nonneg:
  "(case s k of None \<Rightarrow> True | Some v \<Rightarrow> 0 \<le> v) \<Longrightarrow> 0 \<le> d \<Longrightarrow> 0 \<le> get_default s k d"
  by (simp add: get_default_def split: option.splits)

lemma non_negative_Some:
  "non_negative s ks \<Longrightarrow> k \<in> set ks \<Longrightarrow> s k = Some v \<Longrightarrow> 0 \<le> v"
  by (auto simp: non_negative_def list_all_iff split: option.splits)

lemma non_negative_get_default:
  "non_negative s ks \<Longrightarrow> k \<in> set ks \<Longrightarrow> 0 \<le> d \<Longrightarrow> 0 \<le> get_default s k d"
  by (auto simp: non_negative_def list_all_iff get_default_def split: option.splits)

lemma non_negative_append:
  "non_negative s (ks @ ks') \<longleftrightarrow> non_negative s ks \<and> non_negative s ks'"
  by (simp add: non_negative_def)

lemma aws_compute_of:
  assumes "aws_breakdown s = Inr c"
  obtains r d m where
    "s ''requests_per_month'' = Some r" "s ''avg_duration_seconds'' = Some d"
    "s ''memory_gb'' = Some m"
    "aws_compute c =
       max 0 ((r - 1000000) * aws_pricing_lambda_requests)
       + max 0 ((r * d * m - 400000) * aws_pricing_lambda_gb_seconds)
       + r * aws_pricing_api_gateway_requests"
  using assms by (elim aws_breakdown_InrE) (simp add: aws_compute_def)

lemma aws_storage_of:
  assumes "aws_breakdown s = Inr c"
  obtains st tr where
    "s ''storage_gb'' = Some st" "s ''cdn_transfer_gb'' = Some tr"
    "aws_storage c = st * aws_pricing_s3_storage + tr * aws_pricing_cloudfront_transfer"
  using assms by (elim aws_breakdown_InrE) (simp add: aws_storage_def)

lemma aws_database_of:
  assumes "aws_breakdown s = Inr c"
  obtains db where "s ''database_cost'' = Some db" "aws_database c = db"
  using assms by (elim aws_breakdown_InrE) (simp add: aws_database_def)

lemma aws_logging_of:
  assumes "aws_breakdown s = Inr c"
  obtains lg me al os where
    "s ''log_volume_gb'' = Some lg" "s ''metrics_count'' = Some me"
    "s ''alarms_count'' = Some al" "s ''opensearch_cost'' = Some os"
    "aws_logging c =
       lg * aws_pricing_cloudwatch_ingestion + lg * aws_pricing_cloudwatch_storage
       + me * aws_pricing_cloudwatch_metrics + al * aws_pricing_cloudwatch_alarms + os"
  using assms by (elim aws_breakdown_InrE) (simp add: aws_logging_def)

lemma aws_additional_of:
  assumes "aws_breakdown s = Inr c"
  shows "aws_additional c =
           get_default s ''cognito_cost'' 0 + get_default s ''notification_cost'' 2
           + get_default s ''waf_cost'' 6 + get_default s ''data_transfer_cost'' 18"
  using assms by (elim aws_breakdown_InrE) (simp add: aws_additional_def)

lemma aws_total_cost_categories:
  "aws_total_cost c =
     aws_compute c + aws_storage c + aws_database c + aws_logging c + aws_additional c"
  by (simp add: aws_total_cost_def aws_compute_def aws_storage_def aws_database_def
      aws_logging_def aws_additional_def)

lemma azure_compute_of:
  assumes "azure_breakdown s = Inr c"
  obtains r d m ap where
    "s ''requests_per_month'' = Some r" "s ''avg_duration_seconds'' = Some d"
    "s ''memory_gb'' = Some m" "s ''apim_tier_cost'' = Some ap"
    "azure_compute c =
       max 0 ((r - 1000000) * azure_pricing_functions_requests)
       + max 0 ((r * d * m - 400000) * azure_pricing_functions_gb_seconds)
       + ap"
  using assms by (elim azure_breakdown_InrE) (simp add: azure_compute_def)

lemma azure_storage_of:
  assumes "azure_breakdown s = Inr c"
  obtains st tr where
    "s ''storage_gb'' = Some st" "s ''cdn_transfer_gb'' = Some tr"
    "azure_storage c =
       azure_pricing_static_web_apps_standard + st * azure_pricing_static_web_apps_storage
       + tr * azure_pricing_static_web_apps_bandwidth"
  using assms by (elim azure_breakdown_InrE) (simp add: azure_storage_def)

lemma azure_database_of:
  assumes "azure_breakdown s = Inr c"
  obtains ru where "s ''cosmos_ru_per_second'' = Some ru"
    "azure_database c = ru * azure_pricing_cosmos_db_ru_per_second * 730"
  using assms by (elim azure_breakdown_InrE) (simp add: azure_database_def)

lemma azure_logging_of:
  assumes "azure_breakdown s = Inr c"
  obtains lg se where
    "s ''log_volume_gb'' = Some lg" "s ''search_tier_cost'' = Some se"
    "azure_logging c =
       lg * azure_pricing_monitor_ingestion + lg * azure_pricing_monitor_retention_basic + se"
  using assms by (elim azure_breakdown_InrE) (simp add: azure_logging_def)

lemma azure_additional_of:
  assumes "azure_breakdown s = Inr c"
  shows "azure_additional_total c =
           get_default s ''ad_b2c_cost'' 0 + get_default s ''logic_apps_cost'' 1
           + get_default s ''app_gateway_cost'' 18 + get_default s ''key_vault_cost'' 1
           + get_default s ''data_transfer_cost'' 16"
  using assms by (elim azure_breakdown_InrE) (simp add: azure_additional_total_def)

lemma azure_total_cost_categories:
  "azure_total_cost c =
     azure_compute c + azure_storage c + azure_database c + azure_logging c
     + azure_additional_total c"
  by (simp add: azure_total_cost_def azure_compute_def azure_storage_def azure_database_def
      azure_logging_def azure_additional_total_def)

lemma aws_categories_nonneg:
  assumes n: "non_negative s (aws_required @ aws_optional)" and c: "aws_breakdown s = Inr c"
  shows "0 \<le> aws_compute c" "0 \<le> aws_storage c" "0 \<le> aws_database c"
    "0 \<le> aws_logging c" "0 \<le> aws_additional c"
proof -
  have nn: "\<And>k v. k \<in> set aws_required \<Longrightarrow> s k = Some v \<Longrightarrow> 0 \<le> v"
    using non_negative_Some [OF n] by auto
  from c obtain r d m where
    "s ''requests_per_month'' = Some r"
    "aws_compute c =
       max 0 ((r - 1000000) * aws_pricing_lambda_requests)
       + max 0 ((r * d * m - 400000) * aws_pricing_lambda_gb_seconds)
       + r * aws_pricing_api_gateway_requests"
    by (rule aws_compute_of)
  moreover from this have "0 \<le> r"
    by (intro nn [of "''requests_per_month''"]) (simp_all add: aws_required_def)
  moreover have "0 \<le> aws_pricing_api_gateway_requests"
    by (simp add: pricing)
  ultimately show "0 \<le> aws_compute c"
    by (simp add: add_nonneg_nonneg)
  from c obtain st tr where
    k: "s ''storage_gb'' = Some st" "s ''cdn_transfer_gb'' = Some tr"
    and e: "aws_storage c = st * aws_pricing_s3_storage + tr * aws_pricing_cloudfront_transfer"
    by (rule aws_storage_of)
  have "0 \<le> st" "0 \<le> tr"
    using k by (auto intro: nn simp: aws_required_def)
  then show "0 \<le> aws_storage c"
    by (simp add: e pricing)
  from c obtain db where k: "s ''database_cost'' = Some db" and e: "aws_database c = db"
    by (rule aws_database_of)
  have "0 \<le> db"
    using k by (auto intro: nn simp: aws_required_def)
  then show "0 \<le> aws_database c"
    by (simp add: e)
  from c obtain lg me al os where
    k: "s ''log_volume_gb'' = Some lg" "s ''metrics_count'' = Some me"
      "s ''alarms_count'' = Some al" "s ''opensearch_cost'' = Some os"
    and e: "aws_logging c =
       lg * aws_pricing_cloudwatch_ingestion + lg * aws_pricing_cloudwatch_storage
       + me * aws_pricing_cloudwatch_metrics + al * aws_pricing_cloudwatch_alarms + os"
    by (rule aws_logging_of)
  have "0 \<le> lg" "0 \<le> me" "0 \<le> al" "0 \<le> os"
    using k by (auto intro: nn simp: aws_required_def)
  then show "0 \<le> aws_logging c"
    by (simp add: e pricing)
  have "0 \<le> get_default s ''cognito_cost'' 0" "0 \<le> get_default s ''notification_cost'' 2"
    "0 \<le> get_default s ''waf_cost'' 6" "0 \<le> get_default s ''data_transfer_cost'' 18"
    by (rule non_negative_get_default [OF n]; simp add: aws_optional_def)+
  then show "0 \<le> aws_additional c"
    by (simp add: aws_additional_of [OF c])
qed


lemma aws_total_cost_nonneg:
  assumes "non_negative s (aws_required @ aws_optional)" and "aws_breakdown s = Inr c"
  shows "0 \<le> aws_total_cost c" and "aws_logging c \<le> aws_total_cost c"
  using aws_categories_nonneg [OF assms] by (simp_all add: aws_total_cost_categories)




lemma non_negative_low_usage:
  "non_negative low_usage (aws_required @ aws_optional)"
  "non_negative low_usage (azure_required @ azure_optional)"
  by (simp_all add: non_negative_def aws_required_def aws_optional_def azure_required_def
      azure_optional_def low_usage_def)


subsection \<open>Monotonicity\<close>

lemma clamp_mono:
  fixes a b k p :: real
  assumes "a \<le> b" "0 \<le> p"
  shows "max 0 ((a - k) * p) \<le> max 0 ((b - k) * p)"
  using assms by (intro max.mono order_refl mult_right_mono) simp_all

lemma le_fields_Some:
  "\<forall>k. rel_option (\<le>) (s k) (s' k) \<Longrightarrow> s k = Some v \<Longrightarrow> s' k = Some v' \<Longrightarrow> v \<le> v'"
  by (metis option.rel_inject(2))

lemma le_fields_get_default:
  assumes "\<forall>k. rel_option (\<le>) (s k) (s' k)"
  shows "get_default s k d \<le> get_default s' k (d::real)"
proof -
  from assms have "rel_option (\<le>) (s k) (s' k)" by blast
  then show ?thesis
    by (cases "s k"; cases "s' k") (simp_all add: get_default_def)
qed

lemma le_fields_update:
  fixes v v' :: real
  assumes "s k = Some v" "v \<le> v'"
  shows "\<forall>k'. rel_option (\<le>) (s k') ((s(k \<mapsto> v')) k')"
  using assms by (auto intro: option.rel_refl)

lemma has_fields_update: "has_fields s ks \<Longrightarrow> has_fields (s(k \<mapsto> v)) ks"
  by (simp add: has_fields_def list_all_iff)

lemma aws_breakdown_has_fields: "aws_breakdown s = Inr c \<Longrightarrow> has_fields s aws_required"
  by (drule aws_breakdown_keys) (auto simp: has_fields_def aws_required_def)

lemma azure_breakdown_has_fields: "azure_breakdown s = Inr c \<Longrightarrow> has_fields s azure_required"
  by (drule azure_breakdown_keys) (auto simp: has_fields_def azure_required_def)

lemma resource_seconds_mono:
  fixes r d m r' d' m' :: real
  assumes "r \<le> r'" "d \<le> d'" "m \<le> m'" "0 \<le> r" "0 \<le> d" "0 \<le> m"
  shows "r * d * m \<le> r' * d' * m'"
proof -
  from assms have "r * d \<le> r' * d'"
    by (intro mult_mono) simp_all
  moreover from assms have "0 \<le> r' * d'" by simp
  ultimately show ?thesis
    using assms by (intro mult_mono) simp_all
qed

lemma aws_categories_mono:
  assumes le: "\<forall>k. rel_option (\<le>) (s k) (s' k)"
    and n: "non_negative s (aws_required @ aws_optional)"
    and c: "aws_breakdown s = Inr c" and c': "aws_breakdown s' = Inr c'"
  shows "aws_compute c \<le> aws_compute c'" "aws_storage c \<le> aws_storage c'"
    "aws_database c \<le> aws_database c'" "aws_logging c \<le> aws_logging c'"
    "aws_additional c \<le> aws_additional c'"
proof -
  have nn: "\<And>k v. k \<in> set aws_required \<Longrightarrow> s k = Some v \<Longrightarrow> 0 \<le> v"
    using non_negative_Some [OF n] by auto
  note lf = le_fields_Some [OF le]
  from c obtain r d m where
    k: "s ''requests_per_month'' = Some r" "s ''avg_duration_seconds'' = Some d"
      "s ''memory_gb'' = Some m"
    and e: "aws_compute c =
       max 0 ((r - 1000000) * aws_pricing_lambda_requests)
       + max 0 ((r * d * m - 400000) * aws_pricing_lambda_gb_seconds)
       + r * aws_pricing_api_gateway_requests"
    by (rule aws_compute_of)
  from c' obtain r' d' m' where
    k': "s' ''requests_per_month'' = Some r'" "s' ''avg_duration_seconds'' = Some d'"
      "s' ''memory_gb'' = Some m'"
    and e': "aws_compute c' =
       max 0 ((r' - 1000000) * aws_pricing_lambda_requests)
       + max 0 ((r' * d' * m' - 400000) * aws_pricing_lambda_gb_seconds)
       + r' * aws_pricing_api_gateway_requests"
    by (rule aws_compute_of)
  have o: "r \<le> r'" "d \<le> d'" "m \<le> m'"
    using k k' by (auto intro: lf)
  have z: "0 \<le> r" "0 \<le> d" "0 \<le> m"
    using k by (auto intro: nn simp: aws_required_def)
  have p: "0 \<le> aws_pricing_lambda_requests" "0 \<le> aws_pricing_lambda_gb_seconds"
    "0 \<le> aws_pricing_api_gateway_requests"
    by (simp_all add: pricing)
  have "max 0 ((r - 1000000) * aws_pricing_lambda_requests)
          \<le> max 0 ((r' - 1000000) * aws_pricing_lambda_requests)"
    by (rule clamp_mono [OF o(1) p(1)])
  moreover have "max 0 ((r * d * m - 400000) * aws_pricing_lambda_gb_seconds)
          \<le> max 0 ((r' * d' * m' - 400000) * aws_pricing_lambda_gb_seconds)"
    by (rule clamp_mono [OF resource_seconds_mono [OF o z] p(2)])
  moreover have "r * aws_pricing_api_gateway_requests \<le> r' * aws_pricing_api_gateway_requests"
    by (rule mult_right_mono [OF o(1) p(3)])
  ultimately show "aws_compute c \<le> aws_compute c'"
    unfolding e e' by (intro add_mono)
  from c obtain st tr where
    k: "s ''storage_gb'' = Some st" "s ''cdn_transfer_gb'' = Some tr"
    and e: "aws_storage c = st * aws_pricing_s3_storage + tr * aws_pricing_cloudfront_transfer"
    by (rule aws_storage_of)
  from c' obtain st' tr' where
    k': "s' ''storage_gb'' = Some st'" "s' ''cdn_transfer_gb'' = Some tr'"
    and e': "aws_storage c' =
       st' * aws_pricing_s3_storage + tr' * aws_pricing_cloudfront_transfer"
    by (rule aws_storage_of)
  have "st \<le> st'" "tr \<le> tr'"
    using k k' by (auto intro: lf)
  then show "aws_storage c \<le> aws_storage c'"
    by (simp add: e e' pricing)
  from c obtain db where k: "s ''database_cost'' = Some db" and e: "aws_database c = db"
    by (rule aws_database_of)
  from c' obtain db' where k': "s' ''database_cost'' = Some db'" and e': "aws_database c' = db'"
    by (rule aws_database_of)
  have "db \<le> db'"
    using k k' by (auto intro: lf)
  then show "aws_database c \<le> aws_database c'"
    by (simp add: e e')
  from c obtain lg me al os where
    k: "s ''log_volume_gb'' = Some lg" "s ''metrics_count'' = Some me"
      "s ''alarms_count'' = Some al" "s ''opensearch_cost'' = Some os"
    and e: "aws_logging c =
       lg * aws_pricing_cloudwatch_ingestion + lg * aws_pricing_cloudwatch_storage
       + me * aws_pricing_cloudwatch_metrics + al * aws_pricing_cloudwatch_alarms + os"
    by (rule aws_logging_of)
  from c' obtain lg' me' al' os' where
    k': "s' ''log_volume_gb'' = Some lg'" "s' ''metrics_count'' = Some me'"
      "s' ''alarms_count'' = Some al'" "s' ''opensearch_cost'' = Some os'"
    and e': "aws_logging c' =
       lg' * aws_pricing_cloudwatch_ingestion + lg' * aws_pricing_cloudwatch_storage
       + me' * aws_pricing_cloudwatch_metrics + al' * aws_pricing_cloudwatch_alarms + os'"
    by (rule aws_logging_of)
  have "lg \<le> lg'" "me \<le> me'" "al \<le> al'" "os \<le> os'"
    using k k' by (auto intro: lf)
  then show "aws_logging c \<le> aws_logging c'"
    by (simp add: e e' pricing)
  show "aws_additional c \<le> aws_additional c'"
    unfolding aws_additional_of [OF c] aws_additional_of [OF c']
    by (intro add_mono le_fields_get_default [OF le])
qed

lemma azure_categories_mono:
  assumes le: "\<forall>k. rel_option (\<le>) (s k) (s' k)"
    and n: "non_negative s (azure_required @ azure_optional)"
    and c: "azure_breakdown s = Inr c" and c': "azure_breakdown s' = Inr c'"
  shows "azure_compute c \<le> azure_compute c'" "azure_storage c \<le> azure_storage c'"
    "azure_database c \<le> azure_database c'" "azure_logging c \<le> azure_logging c'"
    "azure_additional_total c \<le> azure_additional_total c'"
proof -
  have nn: "\<And>k v. k \<in> set azure_required \<Longrightarrow> s k = Some v \<Longrightarrow> 0 \<le> v"
    using non_negative_Some [OF n] by auto
  note lf = le_fields_Some [OF le]
  from c obtain r d m ap where
    k: "s ''requests_per_month'' = Some r" "s ''avg_duration_seconds'' = Some d"
      "s ''memory_gb'' = Some m" "s ''apim_tier_cost'' = Some ap"
    and e: "azure_compute c =
       max 0 ((r - 1000000) * azure_pricing_functions_requests)
       + max 0 ((r * d * m - 400000) * azure_pricing_functions_gb_seconds)
       + ap"
    by (rule azure_compute_of)
  from c' obtain r' d' m' ap' where
    k': "s' ''requests_per_month'' = Some r'" "s' ''avg_duration_seconds'' = Some d'"
      "s' ''memory_gb'' = Some m'" "s' ''apim_tier_cost'' = Some ap'"
    and e': "azure_compute c' =
       max 0 ((r' - 1000000) * azure_pricing_functions_requests)
       + max 0 ((r' * d' * m' - 400000) * azure_pricing_functions_gb_seconds)
       + ap'"
    by (rule azure_compute_of)
  have o: "r \<le> r'" "d \<le> d'" "m \<le> m'" and oa: "ap \<le> ap'"
    using k k' by (auto intro: lf)
  have z: "0 \<le> r" "0 \<le> d" "0 \<le> m"
    using k by (auto intro: nn simp: azure_required_def)
  have p: "0 \<le> azure_pricing_functions_requests" "0 \<le> azure_pricing_functions_gb_seconds"
    by (simp_all add: pricing)
  have "max 0 ((r - 1000000) * azure_pricing_functions_requests)
          \<le> max 0 ((r' - 1000000) * azure_pricing_functions_requests)"
    by (rule clamp_mono [OF o(1) p(1)])
  moreover have "max 0 ((r * d * m - 400000) * azure_pricing_functions_gb_seconds)
          \<le> max 0 ((r' * d' * m' - 400000) * azure_pricing_functions_gb_seconds)"
    by (rule clamp_mono [OF resource_seconds_mono [OF o z] p(2)])
  ultimately show "azure_compute c \<le> azure_compute c'"
    unfolding e e' using oa by (intro add_mono)
  from c obtain st tr where
    k: "s ''storage_gb'' = Some st" "s ''cdn_transfer_gb'' = Some tr"
    and e: "azure_storage c =
       azure_pricing_static_web_apps_standard + st * azure_pricing_static_web_apps_storage
       + tr * azure_pricing_static_web_apps_bandwidth"
    by (rule azure_storage_of)
  from c' obtain st' tr' where
    k': "s' ''storage_gb'' = Some st'" "s' ''cdn_transfer_gb'' = Some tr'"
    and e': "azure_storage c' =
       azure_pricing_static_web_apps_standard + st' * azure_pricing_static_web_apps_storage
       + tr' * azure_pricing_static_web_apps_bandwidth"
    by (rule azure_storage_of)
  have "st \<le> st'" "tr \<le> tr'"
    using k k' by (auto intro: lf)
  then show "azure_storage c \<le> azure_storage c'"
    by (simp add: e e' pricing)
  from c obtain ru where k: "s ''cosmos_ru_per_second'' = Some ru"
    and e: "azure_database c = ru * azure_pricing_cosmos_db_ru_per_second * 730"
    by (rule azure_database_of)
  from c' obtain ru' where k': "s' ''cosmos_ru_per_second'' = Some ru'"
    and e': "azure_database c' = ru' * azure_pricing_cosmos_db_ru_per_second * 730"
    by (rule azure_database_of)
  have "ru \<le> ru'"
    using k k' by (auto intro: lf)
  then show "azure_database c \<le> azure_database c'"
    by (simp add: e e' pricing)
  from c obtain lg se where
    k: "s ''log_volume_gb'' = Some lg" "s ''search_tier_cost'' = Some se"
    and e: "azure_logging c =
       lg * azure_pricing_monitor_ingestion + lg * azure_pricing_monitor_retention_basic + se"
    by (rule azure_logging_of)
  from c' obtain lg' se' where
    k': "s' ''log_volume_gb'' = Some lg'" "s' ''search_tier_cost'' = Some se'"
    and e': "azure_logging c' =
       lg' * azure_pricing_monitor_ingestion + lg' * azure_pricing_monitor_retention_basic
       + se'"
    by (rule azure_logging_of)
  have "lg \<le> lg'" "se \<le> se'"
    using k k' by (auto intro: lf)
  then show "azure_logging c \<le> azure_logging c'"
    by (simp add: e e' pricing)
  show "azure_additional_total c \<le> azure_additional_total c'"
    unfolding azure_additional_of [OF c] azure_additional_of [OF c']
    by (intro add_mono le_fields_get_default [OF le])
qed

lemma non_negative_update:
  "non_negative s ks \<Longrightarrow> 0 \<le> v \<Longrightarrow> non_negative (s(k \<mapsto> v)) ks"
  by (simp add: non_negative_def list_all_iff)

lemma aws_defaults_cases:
  assumes "map_of aws_defaults k = Some d"
  shows "k = ''cognito_cost'' \<and> d = 0 \<or> k = ''notification_cost'' \<and> d = 2
    \<or> k = ''waf_cost'' \<and> d = 6 \<or> k = ''data_transfer_cost'' \<and> d = 18"
  using assms by (simp add: aws_defaults_def split: if_splits)

lemma azure_defaults_cases:
  assumes "map_of azure_defaults k = Some d"
  shows "k = ''ad_b2c_cost'' \<and> d = 0 \<or> k = ''logic_apps_cost'' \<and> d = 1
    \<or> k = ''app_gateway_cost'' \<and> d = 18 \<or> k = ''key_vault_cost'' \<and> d = 1
    \<or> k = ''data_transfer_cost'' \<and> d = 16"
  using assms by (simp add: azure_defaults_def split: if_splits)

lemma aws_breakdown_default:
  assumes "s k = None" and "map_of aws_defaults k = Some d"
  shows "aws_breakdown (s(k \<mapsto> d)) = aws_breakdown s"
  using aws_defaults_cases [OF assms(2)] assms(1)
  by (elim disjE conjE) (simp_all add: aws_breakdown_def getitem_def get_default_def)

lemma azure_breakdown_default:
  assumes "s k = None" and "map_of azure_defaults k = Some d"
  shows "azure_breakdown (s(k \<mapsto> d)) = azure_breakdown s"
  using azure_defaults_cases [OF assms(2)] assms(1)
  by (elim disjE conjE) (simp_all add: azure_breakdown_def getitem_def get_default_def)

lemma aws_categories_mono_field:
  assumes n: "non_negative s (aws_required @ aws_optional)"
    and v: "read_field aws_defaults s k = Some v" "v \<le> v'"
    and c: "aws_breakdown s = Inr c" and c': "aws_breakdown (s(k \<mapsto> v')) = Inr c'"
  shows "aws_compute c \<le> aws_compute c'" "aws_storage c \<le> aws_storage c'"
    "aws_database c \<le> aws_database c'" "aws_logging c \<le> aws_logging c'"
    "aws_additional c \<le> aws_additional c'"
proof -
  have "aws_compute c \<le> aws_compute c' \<and> aws_storage c \<le> aws_storage c' \<and>
    aws_database c \<le> aws_database c' \<and> aws_logging c \<le> aws_logging c' \<and>
    aws_additional c \<le> aws_additional c'"
  proof (cases "s k")
    case (Some u)
    with v have k: "s k = Some v" by (simp add: read_field_def)
    note le = le_fields_update [of s k v v', OF k v(2)]
    from aws_categories_mono [OF le n c c'] show ?thesis by simp
  next
    case None
    with v have d: "map_of aws_defaults k = Some v" by (simp add: read_field_def)
    from aws_defaults_cases [OF d] have "0 \<le> v" by auto
    with n have n0: "non_negative (s(k \<mapsto> v)) (aws_required @ aws_optional)"
      by (rule non_negative_update)
    from c have c0: "aws_breakdown (s(k \<mapsto> v)) = Inr c"
      by (simp add: aws_breakdown_default [of s k v, OF None d])
    have k0: "(s(k \<mapsto> v)) k = Some v" by simp
    note le = le_fields_update [of "s(k \<mapsto> v)" k v v', OF k0 v(2)]
    from c' have c0': "aws_breakdown ((s(k \<mapsto> v))(k \<mapsto> v')) = Inr c'" by simp
    from aws_categories_mono [OF le n0 c0 c0'] show ?thesis by simp
  qed
  then show "aws_compute c \<le> aws_compute c'" "aws_storage c \<le> aws_storage c'"
    "aws_database c \<le> aws_database c'" "aws_logging c \<le> aws_logging c'"
    "aws_additional c \<le> aws_additional c'"
    by simp_all
qed

lemma azure_categories_mono_field:
  assumes n: "non_negative s (azure_required @ azure_optional)"
    and v: "read_field azure_defaults s k = Some v" "v \<le> v'"
    and c: "azure_breakdown s = Inr c" and c': "azure_breakdown (s(k \<mapsto> v')) = Inr c'"
  shows "azure_compute c \<le> azure_compute c'" "azure_storage c \<le> azure_storage c'"
    "azure_database c \<le> azure_database c'" "azure_logging c \<le> azure_logging c'"
    "azure_additional_total c \<le> azure_additional_total c'"
proof -
  have "azure_compute c \<le> azure_compute c' \<and> azure_storage c \<le> azure_storage c' \<and>
    azure_database c \<le> azure_database c' \<and> azure_logging c \<le> azure_logging c' \<and>
    azure_additional_total c \<le> azure_additional_total c'"
  proof (cases "s k")
    case (Some u)
    with v have k: "s k = Some v" by (simp add: read_field_def)
    note le = le_fields_update [of s k v v', OF k v(2)]
    from azure_categories_mono [OF le n c c'] show ?thesis by simp
  next
    case None
    with v have d: "map_of azure_defaults k = Some v" by (simp add: read_field_def)
    from azure_defaults_cases [OF d] have "0 \<le> v" by auto
    with n have n0: "non_negative (s(k \<mapsto> v)) (azure_required @ azure_optional)"
      by (rule non_negative_update)
    from c have c0: "azure_breakdown (s(k \<mapsto> v)) = Inr c"
      by (simp add: azure_breakdown_default [of s k v, OF None d])
    have k0: "(s(k \<mapsto> v)) k = Some v" by simp
    note le = le_fields_update [of "s(k \<mapsto> v)" k v v', OF k0 v(2)]
    from c' have c0': "azure_breakdown ((s(k \<mapsto> v))(k \<mapsto> v')) = Inr c'" by simp
    from azure_categories_mono [OF le n0 c0 c0'] show ?thesis by simp
  qed
  then show "azure_compute c \<le> azure_compute c'" "azure_storage c \<le> azure_storage c'"
    "azure_database c \<le> azure_database c'" "azure_logging c \<le> azure_logging c'"
    "azure_additional_total c \<le> azure_additional_total c'"
    by simp_all
qed

text \<open>
  C10. On a scenario with no negative field, raising one numeric field and keeping the
  others never lowers a cost. The field is any key; its old value is the entry of the
  scenario or, for a named additional fee that the scenario leaves out, the default the
  method reads in its place. Whenever a provider method returns on the scenario and on
  the raised scenario, each of the five category sub-totals and the grand total of the
  second result is at least that of the first.
\<close>

theorem costs_monotone_in_each_field:
  assumes "non_negative s (aws_required @ aws_optional @ azure_required @ azure_optional)"
  shows
    "(read_field aws_defaults s k = Some v \<and> v \<le> v' \<and>
      calculate_aws_costs s = Inr r \<and> calculate_aws_costs (s(k \<mapsto> v')) = Inr r' \<longrightarrow>
        aws_compute (breakdown r) \<le> aws_compute (breakdown r') \<and>
        aws_storage (breakdown r) \<le> aws_storage (breakdown r') \<and>
        aws_database (breakdown r) \<le> aws_database (breakdown r') \<and>
        aws_logging (breakdown r) \<le> aws_logging (breakdown r') \<and>
        aws_additional (breakdown r) \<le> aws_additional (breakdown r') \<and>
        cost_report.total r \<le> cost_report.total r') \<and>
     (read_field azure_defaults s k = Some w \<and> w \<le> v' \<and>
      calculate_azure_costs s = Inr q \<and> calculate_azure_costs (s(k \<mapsto> v')) = Inr q' \<longrightarrow>
        azure_compute (breakdown q) \<le> azure_compute (breakdown q') \<and>
        azure_storage (breakdown q) \<le> azure_storage (breakdown q') \<and>
        azure_database (breakdown q) \<le> azure_database (breakdown q') \<and>
        azure_logging (breakdown q) \<le> azure_logging (breakdown q') \<and>
        azure_additional_total (breakdown q) \<le> azure_additional_total (breakdown q') \<and>
        cost_report.total q \<le> cost_report.total q')"
proof (rule conjI; rule impI)
  from assms have n: "non_negative s (aws_required @ aws_optional)"
    by (simp add: non_negative_append)
  assume h: "read_field aws_defaults s k = Some v \<and> v \<le> v' \<and>
      calculate_aws_costs s = Inr r \<and> calculate_aws_costs (s(k \<mapsto> v')) = Inr r'"
  then obtain c c' where c: "aws_breakdown s = Inr c" "aws_breakdown (s(k \<mapsto> v')) = Inr c'"
    and r: "breakdown r = c" "cost_report.total r = aws_total_cost c"
      "breakdown r' = c'" "cost_report.total r' = aws_total_cost c'"
    by (auto simp: calculate_aws_costs_eq_Inr)
  from h have v: "read_field aws_defaults s k = Some v" "v \<le> v'" by simp_all
  note m = aws_categories_mono_field [OF n v c]
  from m have "aws_total_cost c \<le> aws_total_cost c'"
    by (simp add: aws_total_cost_categories)
  with m r show "aws_compute (breakdown r) \<le> aws_compute (breakdown r') \<and>
        aws_storage (breakdown r) \<le> aws_storage (breakdown r') \<and>
        aws_database (breakdown r) \<le> aws_database (breakdown r') \<and>
        aws_logging (breakdown r) \<le> aws_logging (breakdown r') \<and>
        aws_additional (breakdown r) \<le> aws_additional (breakdown r') \<and>
        cost_report.total r \<le> cost_report.total r'"
    by simp
next
  from assms have n: "non_negative s (azure_required @ azure_optional)"
    by (simp add: non_negative_append)
  assume h: "read_field azure_defaults s k = Some w \<and> w \<le> v' \<and>
      calculate_azure_costs s = Inr q \<and> calculate_azure_costs (s(k \<mapsto> v')) = Inr q'"
  then obtain c c' where c: "azure_breakdown s = Inr c" "azure_breakdown (s(k \<mapsto> v')) = Inr c'"
    and r: "breakdown q = c" "cost_report.total q = azure_total_cost c"
      "breakdown q' = c'" "cost_report.total q' = azure_total_cost c'"
    by (auto simp: calculate_azure_costs_eq_Inr)
  from h have v: "read_field azure_defaults s k = Some w" "w \<le> v'" by simp_all
  note m = azure_categories_mono_field [OF n v c]
  from m have "azure_total_cost c \<le> azure_total_cost c'"
    by (simp add: azure_total_cost_categories)
  with m r show "azure_compute (breakdown q) \<le> azure_compute (breakdown q') \<and>
        azure_storage (breakdown q) \<le> azure_storage (breakdown q') \<and>
        azure_database (breakdown q) \<le> azure_database (breakdown q') \<and>
        azure_logging (breakdown q) \<le> azure_logging (breakdown q') \<and>
        azure_additional_total (breakdown q) \<le> azure_additional_total (breakdown q') \<and>
        cost_report.total q \<le> cost_report.total q'"
    by simp
qed

theorem costs_monotone_in_each_field_witness:
  "non_negative low_usage (aws_required @ aws_optional @ azure_required @ azure_optional) \<and>
   read_field aws_defaults low_usage ''requests_per_month'' = Some 50000 \<and>
   read_field azure_defaults low_usage ''requests_per_month'' = Some 50000 \<and>
   low_usage ''data_transfer_cost'' = None \<and>
   read_field aws_defaults low_usage ''data_transfer_cost'' = Some 18 \<and>
   read_field azure_defaults low_usage ''data_transfer_cost'' = Some 16 \<and>
   (\<exists>r r1 r2 q q1 q2.
      calculate_aws_costs low_usage = Inr r \<and>
      calculate_aws_costs (low_usage(''requests_per_month'' \<mapsto> 100000)) = Inr r1 \<and>
      calculate_aws_costs (low_usage(''data_transfer_cost'' \<mapsto> 20)) = Inr r2 \<and>
      aws_compute (breakdown r) \<le> aws_compute (breakdown r1) \<and>
      cost_report.total r \<le> cost_report.total r1 \<and>
      aws_additional (breakdown r) \<le> aws_additional (breakdown r2) \<and>
      cost_report.total r \<le> cost_report.total r2 \<and>
      calculate_azure_costs low_usage = Inr q \<and>
      calculate_azure_costs (low_usage(''requests_per_month'' \<mapsto> 100000)) = Inr q1 \<and>
      calculate_azure_costs (low_usage(''data_transfer_cost'' \<mapsto> 20)) = Inr q2 \<and>
      azure_compute (breakdown q) \<le> azure_compute (breakdown q1) \<and>
      cost_report.total q \<le> cost_report.total q1 \<and>
      azure_additional_total (breakdown q) \<le> azure_additional_total (breakdown q2) \<and>
      cost_report.total q \<le> cost_report.total q2)"
proof -
  have n: "non_negative low_usage
      (aws_required @ aws_optional @ azure_required @ azure_optional)"
    using non_negative_low_usage by (simp add: non_negative_append)
  have k: "read_field aws_defaults low_usage ''requests_per_month'' = Some 50000"
    "read_field azure_defaults low_usage ''requests_per_month'' = Some 50000"
    "low_usage ''data_transfer_cost'' = None"
    "read_field aws_defaults low_usage ''data_transfer_cost'' = Some 18"
    "read_field azure_defaults low_usage ''data_transfer_cost'' = Some 16"
    by (simp_all add: read_field_def aws_defaults_def azure_defaults_def low_usage_def)
  obtain r q where
    h: "calculate_aws_costs low_usage = Inr r" "calculate_azure_costs low_usage = Inr q"
    using calculate_aws_costs_low_usage calculate_azure_costs_low_usage by blast
  have "\<exists>r1. calculate_aws_costs (low_usage(''requests_per_month'' \<mapsto> 100000)) = Inr r1"
    "\<exists>r2. calculate_aws_costs (low_usage(''data_transfer_cost'' \<mapsto> 20)) = Inr r2"
    by (simp_all add: calculate_aws_costs_def aws_breakdown_def low_usage_def getitem_def
        get_default_def pricing aws_total_cost_def truediv_def Let_def)
  then obtain r1 r2 where
    h1: "calculate_aws_costs (low_usage(''requests_per_month'' \<mapsto> 100000)) = Inr r1"
      "calculate_aws_costs (low_usage(''data_transfer_cost'' \<mapsto> 20)) = Inr r2"
    by blast
  have "\<exists>q1. calculate_azure_costs (low_usage(''requests_per_month'' \<mapsto> 100000)) = Inr q1"
    "\<exists>q2. calculate_azure_costs (low_usage(''data_transfer_cost'' \<mapsto> 20)) = Inr q2"
    by (simp_all add: calculate_azure_costs_def azure_breakdown_def low_usage_def getitem_def
        get_default_def pricing azure_total_cost_def truediv_def Let_def)
  then obtain q1 q2 where
    h2: "calculate_azure_costs (low_usage(''requests_per_month'' \<mapsto> 100000)) = Inr q1"
      "calculate_azure_costs (low_usage(''data_transfer_cost'' \<mapsto> 20)) = Inr q2"
    by blast
  have o: "(50000::real) \<le> 100000" "(18::real) \<le> 20" "(16::real) \<le> 20" by simp_all
  from costs_monotone_in_each_field [OF n, where k = "''requests_per_month''" and v = 50000
      and w = 50000 and v' = 100000 and r = r and r' = r1 and q = q and q' = q1] k o h h1 h2
  have a: "aws_compute (breakdown r) \<le> aws_compute (breakdown r1)"
    "cost_report.total r \<le> cost_report.total r1"
    "azure_compute (breakdown q) \<le> azure_compute (breakdown q1)"
    "cost_report.total q \<le> cost_report.total q1"
    by blast+
  from costs_monotone_in_each_field [OF n, where k = "''data_transfer_cost''" and v = 18
      and w = 16 and v' = 20 and r = r and r' = r2 and q = q and q' = q2] k o h h1 h2
  have b: "aws_additional (breakdown r) \<le> aws_additional (breakdown r2)"
    "cost_report.total r \<le> cost_report.total r2"
    "azure_additional_total (breakdown q) \<le> azure_additional_total (breakdown q2)"
    "cost_report.total q \<le> cost_report.total q2"
    by blast+
  from n k h h1 h2 a b show ?thesis by blast
qed

subsection \<open>Savings\<close>

lemma calculate_aws_costs_total_pos:
  "non_negative s (aws_required @ aws_optional) \<and> calculate_aws_costs s = Inr r \<Longrightarrow>
     0 < cost_report.total r"
proof -
  assume h: "non_negative s (aws_required @ aws_optional) \<and> calculate_aws_costs s = Inr r"
  then obtain c where c: "aws_breakdown s = Inr c" "aws_total_cost c \<noteq> 0"
    and r: "cost_report.total r = aws_total_cost c"
    by (auto simp: calculate_aws_costs_eq_Inr)
  from aws_total_cost_nonneg(1) [of s c] h c r show ?thesis by simp
qed

subsection \<open>The simpler script's functions, field by field\<close>

lemma acc_calculate_aws_costs_keys:
  assumes "acc_calculate_aws_costs s = Inr a"
  shows "\<exists>requests sg tg users lg. s ''monthly_requests'' = Some requests \<and>
    s ''storage_gb'' = Some sg \<and> s ''data_transfer_gb'' = Some tg \<and>
    s ''users'' = Some users \<and> s ''log_volume_gb'' = Some lg"
  using assms unfolding acc_calculate_aws_costs_def Let_def and_then_eq_Inr getitem_eq_Inr
  by blast

lemma acc_calculate_aws_costs_fields:
  assumes "acc_calculate_aws_costs s = Inr a"
    and k: "s ''monthly_requests'' = Some requests" "s ''storage_gb'' = Some sg"
      "s ''data_transfer_gb'' = Some tg" "s ''users'' = Some users"
      "s ''log_volume_gb'' = Some lg"
  shows "compute a = max 0 ((requests - 1000000) * 0.0000002) + requests * 0.0000035"
    and "storage a = sg * 0.023 + tg * 0.085"
    and "simple_report.database a =
       (if users \<le> 100 then 65 else if users \<le> 1000 then 156 else 625)"
    and "logging a = lg * 0.50 + lg * 0.03
       + (if users \<le> 100 then 28 else if users \<le> 1000 then 145 else 567)"
    and "simple_report.total a =
       compute a + storage a + simple_report.database a + logging a + 20"
    and "simple_report.total a \<noteq> 0"
    and "logging_pct a = logging a / simple_report.total a * 100"
  using assms(1) unfolding acc_calculate_aws_costs_def Let_def
  by (auto simp: k and_then_eq_Inr truediv_eq_Inr)

lemma acc_calculate_azure_costs_keys:
  assumes "acc_calculate_azure_costs s = Inr a"
  shows "\<exists>requests sg tg users lg. s ''monthly_requests'' = Some requests \<and>
    s ''storage_gb'' = Some sg \<and> s ''data_transfer_gb'' = Some tg \<and>
    s ''users'' = Some users \<and> s ''log_volume_gb'' = Some lg"
  using assms unfolding acc_calculate_azure_costs_def Let_def and_then_eq_Inr getitem_eq_Inr
  by blast

lemma acc_calculate_azure_costs_fields:
  assumes "acc_calculate_azure_costs s = Inr a"
    and k: "s ''monthly_requests'' = Some requests" "s ''storage_gb'' = Some sg"
      "s ''data_transfer_gb'' = Some tg" "s ''users'' = Some users"
      "s ''log_volume_gb'' = Some lg"
  shows "compute a = max 0 ((requests - 1000000) * 0.0000002)
       + (if users \<le> 100 then 48 else if users \<le> 1000 then 268 else 2845)"
    and "storage a = sg * 0.18 + tg * 0.15 + 9"
    and "simple_report.database a =
       (if users \<le> 100 then 1000 else if users \<le> 1000 then 5000 else 25000)
       * 0.008 * 730"
    and "logging a = lg * 0.27 + lg * 0.12
       + (if users \<le> 100 then 25 else if users \<le> 1000 then 89 else 445)"
    and "simple_report.total a =
       compute a + storage a + simple_report.database a + logging a + 15"
    and "simple_report.total a \<noteq> 0"
    and "logging_pct a = logging a / simple_report.total a * 100"
  using assms(1) unfolding acc_calculate_azure_costs_def Let_def
  by (auto simp: k and_then_eq_Inr truediv_eq_Inr)

lemma acc_aws_total_pos:
  assumes a: "acc_calculate_aws_costs s = Inr a"
    and n: "non_negative s
      [''monthly_requests'', ''storage_gb'', ''data_transfer_gb'', ''log_volume_gb'']"
  shows "0 < simple_report.total a"
proof -
  from acc_calculate_aws_costs_keys [OF a] obtain requests sg tg users lg where
    k: "s ''monthly_requests'' = Some requests" "s ''storage_gb'' = Some sg"
      "s ''data_transfer_gb'' = Some tg" "s ''users'' = Some users"
      "s ''log_volume_gb'' = Some lg"
    by blast
  note e = acc_calculate_aws_costs_fields [OF a k]
  from n k have z: "0 \<le> requests" "0 \<le> sg" "0 \<le> tg" "0 \<le> lg"
    by (simp_all add: non_negative_def)
  from z have "0 \<le> compute a" "0 \<le> storage a" "0 < simple_report.database a"
    "0 < logging a"
    by (simp_all add: e(1-4) add_nonneg_nonneg add_nonneg_pos)
  then show ?thesis by (simp add: e(5))
qed

subsection \<open>The comparison of one scenario\<close>

lemma compare_scenario_eq_Inr:
  "compare_scenario sd = Inr cmp \<longleftrightarrow>
     (\<exists>a b. calculate_aws_costs (snd sd) = Inr a \<and> calculate_azure_costs (snd sd) = Inr b \<and>
        cost_report.total a \<noteq> 0 \<and>
        cmp = \<lparr> scenario = fst sd, aws = a, azure = b,
                savings_azure = cost_report.total a - cost_report.total b,
                savings_percentage =
                  (cost_report.total a - cost_report.total b) / cost_report.total a * 100 \<rparr>)"
  unfolding compare_scenario_def and_then_eq_Inr truediv_eq_Inr by auto

lemma savings_percentage_sign:
  fixes a b :: real
  assumes "0 < a"
  shows "b < a \<Longrightarrow> 0 < (a - b) / a * 100" and "a < b \<Longrightarrow> (a - b) / a * 100 < 0"
  using assms by (simp_all add: divide_less_0_iff)

text \<open>
  C5. For one scenario, the comparison's absolute savings are the AWS total minus the
  Azure total, and the savings percentage is that difference divided by the AWS total,
  times 100. On a scenario with no negative field the AWS total is positive, so savings
  and percentage are both strictly positive when the AWS total is the larger and both
  strictly negative when the Azure total is the larger. The same holds for the savings
  the simpler script computes.
\<close>

theorem savings_and_sign:
  "(compare_scenario (name, s) = Inr cmp \<longrightarrow>
      calculate_aws_costs s = Inr (aws cmp) \<and> calculate_azure_costs s = Inr (azure cmp) \<and>
      savings_azure cmp = cost_report.total (aws cmp) - cost_report.total (azure cmp) \<and>
      savings_percentage cmp =
        (cost_report.total (aws cmp) - cost_report.total (azure cmp))
          / cost_report.total (aws cmp) * 100) \<and>
   (compare_scenario (name, s) = Inr cmp \<and> non_negative s (aws_required @ aws_optional) \<longrightarrow>
      (cost_report.total (azure cmp) < cost_report.total (aws cmp) \<longrightarrow>
         0 < savings_azure cmp \<and> 0 < savings_percentage cmp) \<and>
      (cost_report.total (aws cmp) < cost_report.total (azure cmp) \<longrightarrow>
         savings_azure cmp < 0 \<and> savings_percentage cmp < 0)) \<and>
   (acc_scenario_savings t = Inr (savings, savings_pct) \<longrightarrow>
      (\<exists>a b. acc_calculate_aws_costs t = Inr a \<and> acc_calculate_azure_costs t = Inr b \<and>
         savings = simple_report.total a - simple_report.total b \<and>
         savings_pct = savings / simple_report.total a * 100 \<and>
         (non_negative t
            [''monthly_requests'', ''storage_gb'', ''data_transfer_gb'', ''log_volume_gb''] \<longrightarrow>
            (simple_report.total b < simple_report.total a \<longrightarrow>
               0 < savings \<and> 0 < savings_pct) \<and>
            (simple_report.total a < simple_report.total b \<longrightarrow>
               savings < 0 \<and> savings_pct < 0))))"
proof (intro conjI)
  show "compare_scenario (name, s) = Inr cmp \<longrightarrow>
      calculate_aws_costs s = Inr (aws cmp) \<and> calculate_azure_costs s = Inr (azure cmp) \<and>
      savings_azure cmp = cost_report.total (aws cmp) - cost_report.total (azure cmp) \<and>
      savings_percentage cmp =
        (cost_report.total (aws cmp) - cost_report.total (azure cmp))
          / cost_report.total (aws cmp) * 100"
    by (auto simp: compare_scenario_eq_Inr)
  show "compare_scenario (name, s) = Inr cmp \<and> non_negative s (aws_required @ aws_optional) \<longrightarrow>
      (cost_report.total (azure cmp) < cost_report.total (aws cmp) \<longrightarrow>
         0 < savings_azure cmp \<and> 0 < savings_percentage cmp) \<and>
      (cost_report.total (aws cmp) < cost_report.total (azure cmp) \<longrightarrow>
         savings_azure cmp < 0 \<and> savings_percentage cmp < 0)"
  proof
    assume h: "compare_scenario (name, s) = Inr cmp \<and>
      non_negative s (aws_required @ aws_optional)"
    then obtain a b where a: "calculate_aws_costs s = Inr a"
      and cmp: "cmp = \<lparr> scenario = name, aws = a, azure = b,
                savings_azure = cost_report.total a - cost_report.total b,
                savings_percentage =
                  (cost_report.total a - cost_report.total b) / cost_report.total a * 100 \<rparr>"
      by (auto simp: compare_scenario_eq_Inr)
    from calculate_aws_costs_total_pos [of s a] h a have "0 < cost_report.total a"
      by simp
    from savings_percentage_sign [OF this, of "cost_report.total b"] cmp
    show "(cost_report.total (azure cmp) < cost_report.total (aws cmp) \<longrightarrow>
         0 < savings_azure cmp \<and> 0 < savings_percentage cmp) \<and>
      (cost_report.total (aws cmp) < cost_report.total (azure cmp) \<longrightarrow>
         savings_azure cmp < 0 \<and> savings_percentage cmp < 0)"
      by simp
  qed
  show "acc_scenario_savings t = Inr (savings, savings_pct) \<longrightarrow>
      (\<exists>a b. acc_calculate_aws_costs t = Inr a \<and> acc_calculate_azure_costs t = Inr b \<and>
         savings = simple_report.total a - simple_report.total b \<and>
         savings_pct = savings / simple_report.total a * 100 \<and>
         (non_negative t
            [''monthly_requests'', ''storage_gb'', ''data_transfer_gb'', ''log_volume_gb''] \<longrightarrow>
            (simple_report.total b < simple_report.total a \<longrightarrow>
               0 < savings \<and> 0 < savings_pct) \<and>
            (simple_report.total a < simple_report.total b \<longrightarrow>
               savings < 0 \<and> savings_pct < 0)))"
  proof
    assume "acc_scenario_savings t = Inr (savings, savings_pct)"
    then obtain a b where a: "acc_calculate_aws_costs t = Inr a"
      and b: "acc_calculate_azure_costs t = Inr b"
      and sv: "savings = simple_report.total a - simple_report.total b"
      and pct: "savings_pct = savings / simple_report.total a * 100"
      unfolding acc_scenario_savings_def Let_def and_then_eq_Inr truediv_eq_Inr by auto
    have "non_negative t
            [''monthly_requests'', ''storage_gb'', ''data_transfer_gb'', ''log_volume_gb''] \<longrightarrow>
            (simple_report.total b < simple_report.total a \<longrightarrow>
               0 < savings \<and> 0 < savings_pct) \<and>
            (simple_report.total a < simple_report.total b \<longrightarrow>
               savings < 0 \<and> savings_pct < 0)"
    proof
      assume "non_negative t
            [''monthly_requests'', ''storage_gb'', ''data_transfer_gb'', ''log_volume_gb'']"
      from acc_aws_total_pos [OF a this]
        savings_percentage_sign [of "simple_report.total a" "simple_report.total b"]
      show "(simple_report.total b < simple_report.total a \<longrightarrow>
               0 < savings \<and> 0 < savings_pct) \<and>
            (simple_report.total a < simple_report.total b \<longrightarrow>
               savings < 0 \<and> savings_pct < 0)"
        by (simp add: sv pct)
    qed
    with a b sv pct show "\<exists>a b. acc_calculate_aws_costs t = Inr a \<and>
         acc_calculate_azure_costs t = Inr b \<and>
         savings = simple_report.total a - simple_report.total b \<and>
         savings_pct = savings / simple_report.total a * 100 \<and>
         (non_negative t
            [''monthly_requests'', ''storage_gb'', ''data_transfer_gb'', ''log_volume_gb''] \<longrightarrow>
            (simple_report.total b < simple_report.total a \<longrightarrow>
               0 < savings \<and> 0 < savings_pct) \<and>
            (simple_report.total a < simple_report.total b \<longrightarrow>
               savings < 0 \<and> savings_pct < 0))"
      by blast
  qed
qed

lemma non_negative_acc_low:
  "non_negative acc_low
     [''monthly_requests'', ''storage_gb'', ''data_transfer_gb'', ''log_volume_gb'']"
  by (simp add: non_negative_def acc_low_def)

theorem savings_and_sign_witness:
  "non_negative low_usage (aws_required @ aws_optional) \<and>
   non_negative acc_low
     [''monthly_requests'', ''storage_gb'', ''data_transfer_gb'', ''log_volume_gb''] \<and>
   (\<exists>cmp. compare_scenario (''Low Usage (100 DAU)'', low_usage) = Inr cmp \<and>
      cost_report.total (aws cmp) = 150.125 \<and> cost_report.total (azure cmp) = 5985.9 \<and>
      savings_azure cmp = 150.125 - 5985.9 \<and>
      savings_azure cmp < 0 \<and> savings_percentage cmp < 0) \<and>
   (\<exists>savings savings_pct. acc_scenario_savings acc_low = Inr (savings, savings_pct) \<and>
      savings = 136.6075 - 5979.9 \<and> savings < 0 \<and> savings_pct < 0)"
proof -
  let ?a = "136.6075 :: real" and ?b = "5979.9 :: real"
  obtain cmp where cmp: "compare_scenario (''Low Usage (100 DAU)'', low_usage) = Inr cmp"
    by (simp add: compare_scenario_def calculate_aws_costs_low_usage
        calculate_azure_costs_low_usage truediv_def)
  have acc: "acc_scenario_savings acc_low = Inr (?a - ?b, (?a - ?b) / ?a * 100)"
    by (simp add: acc_scenario_savings_def acc_calculate_aws_costs_acc_low
        acc_calculate_azure_costs_acc_low truediv_def Let_def)
  note th = savings_and_sign [where name = "''Low Usage (100 DAU)''" and s = low_usage
      and cmp = cmp and t = acc_low and savings = "?a - ?b"
      and savings_pct = "(?a - ?b) / ?a * 100"]
  from th cmp have 1: "calculate_aws_costs low_usage = Inr (aws cmp)"
    "calculate_azure_costs low_usage = Inr (azure cmp)"
    "savings_azure cmp = cost_report.total (aws cmp) - cost_report.total (azure cmp)"
    by blast+
  from 1(1,2) have t: "cost_report.total (aws cmp) = 150.125"
    "cost_report.total (azure cmp) = 5985.9"
    by (auto simp: calculate_aws_costs_eq_Inr calculate_azure_costs_eq_Inr
        aws_breakdown_low_usage azure_breakdown_low_usage aws_total_cost_def
        azure_total_cost_def)
  from th cmp non_negative_low_usage(1) t
  have 2: "savings_azure cmp < 0 \<and> savings_percentage cmp < 0"
    by simp
  from th acc non_negative_acc_low
  have 3: "?a - ?b < 0 \<and> (?a - ?b) / ?a * 100 < 0"
    by (simp add: acc_calculate_aws_costs_acc_low acc_calculate_azure_costs_acc_low)
  from 1(3) t have 4: "savings_azure cmp = 150.125 - 5985.9" by simp
  have "\<exists>cmp. compare_scenario (''Low Usage (100 DAU)'', low_usage) = Inr cmp \<and>
      cost_report.total (aws cmp) = 150.125 \<and> cost_report.total (azure cmp) = 5985.9 \<and>
      savings_azure cmp = 150.125 - 5985.9 \<and>
      savings_azure cmp < 0 \<and> savings_percentage cmp < 0"
    using cmp t 2 4 by blast
  moreover have "\<exists>savings savings_pct.
      acc_scenario_savings acc_low = Inr (savings, savings_pct) \<and>
      savings = 136.6075 - 5979.9 \<and> savings < 0 \<and> savings_pct < 0"
    using acc 3 by blast
  ultimately show ?thesis
    using non_negative_low_usage(1) non_negative_acc_low by blast
qed

subsection \<open>The three hard-coded scenarios and their average\<close>

lemma totals_low_usage:
  "\<exists>a b. calculate_aws_costs low_usage = Inr a \<and> cost_report.total a = 150.125 \<and>
     calculate_azure_costs low_usage = Inr b \<and> cost_report.total b = 5985.9"
  by (simp add: calculate_aws_costs_low_usage calculate_azure_costs_low_usage)

lemma totals_medium_usage:
  "\<exists>a b. calculate_aws_costs medium_usage = Inr a \<and> cost_report.total a = 630.78337 \<and>
     calculate_azure_costs medium_usage = Inr b \<and> cost_report.total b = 29913.7"
  by (simp add: calculate_aws_costs_def aws_breakdown_def calculate_azure_costs_def
      azure_breakdown_def medium_usage_def getitem_def get_default_def pricing
      aws_total_cost_def azure_total_cost_def truediv_def Let_def)

lemma totals_high_usage:
  "\<exists>a b. calculate_aws_costs high_usage = Inr a \<and> cost_report.total a = 7493.63482 \<and>
     calculate_azure_costs high_usage = Inr b \<and> cost_report.total b = 152921.4"
  by (simp add: calculate_aws_costs_def aws_breakdown_def calculate_azure_costs_def
      azure_breakdown_def high_usage_def getitem_def get_default_def pricing
      aws_total_cost_def azure_total_cost_def truediv_def Let_def)

lemma compare_scenario_totals:
  assumes "calculate_aws_costs s = Inr a" "calculate_azure_costs s = Inr b"
    "cost_report.total a \<noteq> 0"
  shows "\<exists>cmp. compare_scenario (name, s) = Inr cmp \<and>
           cost_report.total (aws cmp) = cost_report.total a \<and>
           cost_report.total (azure cmp) = cost_report.total b \<and>
           savings_percentage cmp =
             (cost_report.total a - cost_report.total b) / cost_report.total a * 100"
  using assms by (simp add: compare_scenario_def truediv_def)

lemma compare_all_scenarios_figures:
  "\<exists>c1 c2 c3.
     compare_all_scenarios =
       Inr [(''low_usage'', c1), (''medium_usage'', c2), (''high_usage'', c3)] \<and>
     cost_report.total (aws c1) = 150.125 \<and> cost_report.total (azure c1) = 5985.9 \<and>
     cost_report.total (aws c2) = 630.78337 \<and> cost_report.total (azure c2) = 29913.7 \<and>
     cost_report.total (aws c3) = 7493.63482 \<and> cost_report.total (azure c3) = 152921.4 \<and>
     savings_percentage c1 = (150.125 - 5985.9) / 150.125 * 100 \<and>
     savings_percentage c2 = (630.78337 - 29913.7) / 630.78337 * 100 \<and>
     savings_percentage c3 = (7493.63482 - 152921.4) / 7493.63482 * 100"
proof -
  from totals_low_usage obtain a1 b1 where
    1: "calculate_aws_costs low_usage = Inr a1" "cost_report.total a1 = 150.125"
      "calculate_azure_costs low_usage = Inr b1" "cost_report.total b1 = 5985.9"
    by blast
  from totals_medium_usage obtain a2 b2 where
    2: "calculate_aws_costs medium_usage = Inr a2" "cost_report.total a2 = 630.78337"
      "calculate_azure_costs medium_usage = Inr b2" "cost_report.total b2 = 29913.7"
    by blast
  from totals_high_usage obtain a3 b3 where
    3: "calculate_aws_costs high_usage = Inr a3" "cost_report.total a3 = 7493.63482"
      "calculate_azure_costs high_usage = Inr b3" "cost_report.total b3 = 152921.4"
    by blast
  from compare_scenario_totals [OF 1(1) 1(3), of "''Low Usage (100 DAU)''"] 1(2,4)
  obtain c1 where c1: "compare_scenario (''Low Usage (100 DAU)'', low_usage) = Inr c1"
    "cost_report.total (aws c1) = 150.125" "cost_report.total (azure c1) = 5985.9"
    "savings_percentage c1 = (150.125 - 5985.9) / 150.125 * 100"
    by auto
  from compare_scenario_totals [OF 2(1) 2(3), of "''Medium Usage (1K DAU)''"] 2(2,4)
  obtain c2 where c2: "compare_scenario (''Medium Usage (1K DAU)'', medium_usage) = Inr c2"
    "cost_report.total (aws c2) = 630.78337" "cost_report.total (azure c2) = 29913.7"
    "savings_percentage c2 = (630.78337 - 29913.7) / 630.78337 * 100"
    by auto
  from compare_scenario_totals [OF 3(1) 3(3), of "''High Usage (10K DAU)''"] 3(2,4)
  obtain c3 where c3: "compare_scenario (''High Usage (10K DAU)'', high_usage) = Inr c3"
    "cost_report.total (aws c3) = 7493.63482" "cost_report.total (azure c3) = 152921.4"
    "savings_percentage c3 = (7493.63482 - 152921.4) / 7493.63482 * 100"
    by auto
  have "compare_all_scenarios =
       Inr [(''low_usage'', c1), (''medium_usage'', c2), (''high_usage'', c3)]"
    by (simp add: compare_all_scenarios_def generate_scenarios_def c1(1) c2(1) c3(1))
  with c1(2-4) c2(2-4) c3(2-4) show ?thesis by blast
qed

text \<open>
  C6. The average generate_report prints is the sum of the per-scenario savings
  percentages divided by their number, for every non-empty table of results. On the three
  hard-coded scenarios it is a third of the sum of the three percentages, and it differs
  from the percentage recomputed from the summed totals.
\<close>

theorem average_is_mean_of_percentages:
  "avg_azure_savings (r # rs) =
     Inr (sum_list (map (\<lambda>data. savings_percentage (snd data)) (r # rs))
          / real (length (r # rs))) \<and>
   (\<exists>c1 c2 c3.
      compare_all_scenarios =
        Inr [(''low_usage'', c1), (''medium_usage'', c2), (''high_usage'', c3)] \<and>
      generate_report_avg =
        Inr ((savings_percentage c1 + savings_percentage c2 + savings_percentage c3) / 3) \<and>
      generate_report_avg \<noteq>
        Inr (((cost_report.total (aws c1) + cost_report.total (aws c2)
               + cost_report.total (aws c3))
              - (cost_report.total (azure c1) + cost_report.total (azure c2)
                 + cost_report.total (azure c3)))
             / (cost_report.total (aws c1) + cost_report.total (aws c2)
                + cost_report.total (aws c3)) * 100))"
proof
  show "avg_azure_savings (r # rs) =
     Inr (sum_list (map (\<lambda>data. savings_percentage (snd data)) (r # rs))
          / real (length (r # rs)))"
    by (simp add: avg_azure_savings_def truediv_def)
  from compare_all_scenarios_figures obtain c1 c2 c3 where
    c: "compare_all_scenarios =
       Inr [(''low_usage'', c1), (''medium_usage'', c2), (''high_usage'', c3)]"
    and t: "cost_report.total (aws c1) = 150.125" "cost_report.total (azure c1) = 5985.9"
      "cost_report.total (aws c2) = 630.78337" "cost_report.total (azure c2) = 29913.7"
      "cost_report.total (aws c3) = 7493.63482" "cost_report.total (azure c3) = 152921.4"
    and p: "savings_percentage c1 = (150.125 - 5985.9) / 150.125 * 100"
      "savings_percentage c2 = (630.78337 - 29913.7) / 630.78337 * 100"
      "savings_percentage c3 = (7493.63482 - 152921.4) / 7493.63482 * 100"
    by blast
  have avg: "generate_report_avg =
      Inr ((savings_percentage c1 + savings_percentage c2 + savings_percentage c3) / 3)"
    by (simp add: generate_report_avg_def c avg_azure_savings_def truediv_def)
  have "(savings_percentage c1 + savings_percentage c2 + savings_percentage c3) / 3 \<noteq>
      ((cost_report.total (aws c1) + cost_report.total (aws c2)
               + cost_report.total (aws c3))
              - (cost_report.total (azure c1) + cost_report.total (azure c2)
                 + cost_report.total (azure c3)))
             / (cost_report.total (aws c1) + cost_report.total (aws c2)
                + cost_report.total (aws c3)) * 100"
    unfolding t p by simp
  then have "generate_report_avg \<noteq>
        Inr (((cost_report.total (aws c1) + cost_report.total (aws c2)
               + cost_report.total (aws c3))
              - (cost_report.total (azure c1) + cost_report.total (azure c2)
                 + cost_report.total (azure c3)))
             / (cost_report.total (aws c1) + cost_report.total (aws c2)
                + cost_report.total (aws c3)) * 100)"
    unfolding avg by simp
  with avg c show "\<exists>c1 c2 c3.
      compare_all_scenarios =
        Inr [(''low_usage'', c1), (''medium_usage'', c2), (''high_usage'', c3)] \<and>
      generate_report_avg =
        Inr ((savings_percentage c1 + savings_percentage c2 + savings_percentage c3) / 3) \<and>
      generate_report_avg \<noteq>
        Inr (((cost_report.total (aws c1) + cost_report.total (aws c2)
               + cost_report.total (aws c3))
              - (cost_report.total (azure c1) + cost_report.total (azure c2)
                 + cost_report.total (azure c3)))
             / (cost_report.total (aws c1) + cost_report.total (aws c2)
                + cost_report.total (aws c3)) * 100)"
    by blast
qed

subsection \<open>The two scripts on one scenario\<close>

lemma common_low_usage_simps:
  "common_low_usage ''requests_per_month'' = Some 50000"
  "common_low_usage ''avg_duration_seconds'' = Some 2"
  "common_low_usage ''memory_gb'' = Some 0.5"
  "common_low_usage ''storage_gb'' = Some 50"
  "common_low_usage ''cdn_transfer_gb'' = Some 100"
  "common_low_usage ''log_volume_gb'' = Some 10"
  "common_low_usage ''metrics_count'' = Some 50"
  "common_low_usage ''alarms_count'' = Some 10"
  "common_low_usage ''database_cost'' = Some 65"
  "common_low_usage ''opensearch_cost'' = Some 28"
  "common_low_usage ''apim_tier_cost'' = Some 48"
  "common_low_usage ''cosmos_ru_per_second'' = Some 1000"
  "common_low_usage ''search_tier_cost'' = Some 25"
  "common_low_usage ''monthly_requests'' = Some 50000"
  "common_low_usage ''data_transfer_gb'' = Some 100"
  "common_low_usage ''users'' = Some 100"
  "common_low_usage ''cognito_cost'' = None"
  "common_low_usage ''notification_cost'' = None"
  "common_low_usage ''waf_cost'' = None"
  "common_low_usage ''data_transfer_cost'' = None"
  "common_low_usage ''ad_b2c_cost'' = None"
  "common_low_usage ''logic_apps_cost'' = None"
  "common_low_usage ''app_gateway_cost'' = None"
  "common_low_usage ''key_vault_cost'' = None"
  by (simp_all add: common_low_usage_def low_usage_def map_add_def)

lemma acc_calculate_aws_costs_common:
  "acc_calculate_aws_costs common_low_usage =
     Inr \<lparr> compute = 0.175, storage = 9.65, database = 65, logging = 33.3,
           total = 128.125, logging_pct = 33.3 / 128.125 * 100 \<rparr>"
  by (simp add: acc_calculate_aws_costs_def common_low_usage_simps getitem_def truediv_def Let_def)

lemma acc_calculate_azure_costs_common:
  "acc_calculate_azure_costs common_low_usage =
     Inr \<lparr> compute = 48, storage = 33, database = 5840, logging = 28.9,
           total = 5964.9, logging_pct = 28.9 / 5964.9 * 100 \<rparr>"
  by (simp add: acc_calculate_azure_costs_def common_low_usage_simps getitem_def truediv_def Let_def)

lemma calculate_aws_costs_common:
  "calculate_aws_costs common_low_usage =
     Inr \<lparr> breakdown =
             \<lparr> lambda_requests = 0, lambda_execution = 0, lambda_total = 0,
               api_gateway = 0.175,
               s3_cloudfront_storage = 1.15, s3_cloudfront_transfer = 8.5,
               s3_cloudfront_total = 9.65,
               database = 65,
               cloudwatch_ingestion = 5, cloudwatch_storage = 0.3,
               cloudwatch_metrics = 15, cloudwatch_alarms = 1, cloudwatch_total = 21.3,
               opensearch = 28,
               additional = [(''cognito'', 0), (''sns_ses'', 2), (''waf'', 6),
                             (''data_transfer'', 18)] \<rparr>,
           total = 150.125,
           logging_percentage = 49.3 / 150.125 * 100 \<rparr>"
  by (simp add: calculate_aws_costs_def aws_breakdown_def common_low_usage_simps
      getitem_def get_default_def pricing aws_total_cost_def truediv_def Let_def)

lemma calculate_azure_costs_common:
  "calculate_azure_costs common_low_usage =
     Inr \<lparr> breakdown =
             \<lparr> functions_requests = 0, functions_execution = 0, functions_total = 0,
               apim = 48,
               static_web_apps_base = 9, static_web_apps_storage = 9,
               static_web_apps_bandwidth = 15, static_web_apps_total = 33,
               cosmos_db = 5840,
               monitor_ingestion = 2.7, monitor_retention = 1.2, monitor_total = 3.9,
               search = 25,
               azure_additional = [(''ad_b2c'', 0), (''logic_apps'', 1), (''app_gateway'', 18),
                                   (''key_vault'', 1), (''data_transfer'', 16)] \<rparr>,
           total = 5985.9,
           logging_percentage = 28.9 / 5985.9 * 100 \<rparr>"
  by (simp add: calculate_azure_costs_def azure_breakdown_def common_low_usage_simps
      getitem_def get_default_def pricing azure_total_cost_def truediv_def Let_def)

text \<open>
  C9 as stated fails in its example: the two scripts do not disagree on the S3 storage
  price or on the transfer price. With one GB stored and nothing transferred both AWS
  storage sub-totals are 0.023; with nothing stored and one GB transferred both are 0.085.
\<close>

theorem storage_prices_agree_counterexample:
  "map_sum id storage
     (acc_calculate_aws_costs
        (common_low_usage(''storage_gb'' \<mapsto> 1, ''data_transfer_gb'' \<mapsto> 0,
           ''cdn_transfer_gb'' \<mapsto> 0))) = Inr 0.023 \<and>
   map_sum id (aws_storage \<circ> breakdown)
     (calculate_aws_costs
        (common_low_usage(''storage_gb'' \<mapsto> 1, ''data_transfer_gb'' \<mapsto> 0,
           ''cdn_transfer_gb'' \<mapsto> 0))) = Inr 0.023 \<and>
   map_sum id storage
     (acc_calculate_aws_costs
        (common_low_usage(''storage_gb'' \<mapsto> 0, ''data_transfer_gb'' \<mapsto> 1,
           ''cdn_transfer_gb'' \<mapsto> 1))) = Inr 0.085 \<and>
   map_sum id (aws_storage \<circ> breakdown)
     (calculate_aws_costs
        (common_low_usage(''storage_gb'' \<mapsto> 0, ''data_transfer_gb'' \<mapsto> 1,
           ''cdn_transfer_gb'' \<mapsto> 1))) = Inr 0.085"
  by (simp add: acc_calculate_aws_costs_def calculate_aws_costs_def aws_breakdown_def
      common_low_usage_simps getitem_def get_default_def pricing aws_total_cost_def aws_storage_def
      truediv_def Let_def)

text \<open>
  C9, amended. The two implementations are not extensionally equal: on the low-usage
  scenario given to both, the simpler script's AWS total is 128.125 and the class-based
  one's is 150.125, and the Azure totals are 5964.9 and 5985.9. Compute, storage and
  database agree there; the class-based logging adds the CloudWatch metric and alarm
  fees (49.3 against 33.3 for AWS), and its named additional fees sum to 26 (AWS) and
  36 (Azure) where the simpler script adds a flat 20 and 15. The storage and transfer
  unit prices are the same in both scripts. Whenever both return on a scenario whose two
  transfer fields agree, the two AWS storage sub-totals are equal: both are the storage
  fee plus the transfer fee. The two Azure storage sub-totals are sums of the same three
  terms in two orders: the simpler script adds the storage fee, the bandwidth fee and
  then the base fee of 9, the class-based one the base fee first.
\<close>

theorem implementations_differ_in_fees_not_storage_prices:
  "map_sum id simple_report.total (acc_calculate_aws_costs common_low_usage) = Inr 128.125 \<and>
   map_sum id cost_report.total (calculate_aws_costs common_low_usage) = Inr 150.125 \<and>
   map_sum id simple_report.total (acc_calculate_azure_costs common_low_usage) = Inr 5964.9 \<and>
   map_sum id cost_report.total (calculate_azure_costs common_low_usage) = Inr 5985.9 \<and>
   map_sum id compute (acc_calculate_aws_costs common_low_usage) = Inr 0.175 \<and>
   map_sum id (aws_compute \<circ> breakdown) (calculate_aws_costs common_low_usage) = Inr 0.175 \<and>
   map_sum id simple_report.database (acc_calculate_aws_costs common_low_usage) = Inr 65 \<and>
   map_sum id (aws_database \<circ> breakdown) (calculate_aws_costs common_low_usage) = Inr 65 \<and>
   map_sum id logging (acc_calculate_aws_costs common_low_usage) = Inr 33.3 \<and>
   map_sum id (aws_logging \<circ> breakdown) (calculate_aws_costs common_low_usage) = Inr 49.3 \<and>
   map_sum id (aws_additional \<circ> breakdown) (calculate_aws_costs common_low_usage) = Inr 26 \<and>
   map_sum id (azure_additional_total \<circ> breakdown)
     (calculate_azure_costs common_low_usage) = Inr 36 \<and>
   (acc_calculate_aws_costs s = Inr a \<and> calculate_aws_costs s = Inr r \<and>
      s ''data_transfer_gb'' = s ''cdn_transfer_gb'' \<longrightarrow>
      storage a = aws_storage (breakdown r)) \<and>
   (acc_calculate_azure_costs s = Inr a' \<and> calculate_azure_costs s = Inr r' \<and>
      s ''data_transfer_gb'' = s ''cdn_transfer_gb'' \<longrightarrow>
      storage a' = static_web_apps_storage (breakdown r')
                   + static_web_apps_bandwidth (breakdown r')
                   + static_web_apps_base (breakdown r') \<and>
      azure_storage (breakdown r') = static_web_apps_base (breakdown r')
                   + static_web_apps_storage (breakdown r')
                   + static_web_apps_bandwidth (breakdown r') \<and>
      static_web_apps_base (breakdown r') = 9)"
proof -
  have 1: "acc_calculate_aws_costs s = Inr a \<and> calculate_aws_costs s = Inr r \<and>
      s ''data_transfer_gb'' = s ''cdn_transfer_gb'' \<longrightarrow>
      storage a = aws_storage (breakdown r)"
  proof
    assume h: "acc_calculate_aws_costs s = Inr a \<and> calculate_aws_costs s = Inr r \<and>
      s ''data_transfer_gb'' = s ''cdn_transfer_gb''"
    then have b: "aws_breakdown s = Inr (breakdown r)"
      by (auto simp: calculate_aws_costs_eq_Inr)
    from h acc_calculate_aws_costs_keys obtain requests sg tg users lg where
      k: "s ''monthly_requests'' = Some requests" "s ''storage_gb'' = Some sg"
        "s ''data_transfer_gb'' = Some tg" "s ''users'' = Some users"
        "s ''log_volume_gb'' = Some lg"
      by blast
    from h have e: "storage a = sg * 0.023 + tg * 0.085"
      using acc_calculate_aws_costs_fields(2) [OF _ k] by blast
    from b obtain st tr where
      k': "s ''storage_gb'' = Some st" "s ''cdn_transfer_gb'' = Some tr"
      and e': "aws_storage (breakdown r) =
        st * aws_pricing_s3_storage + tr * aws_pricing_cloudfront_transfer"
      by (rule aws_storage_of)
    from h k k' have "st = sg" "tr = tg" by simp_all
    then show "storage a = aws_storage (breakdown r)"
      by (simp add: e e' pricing)
  qed
  have 2: "acc_calculate_azure_costs s = Inr a' \<and> calculate_azure_costs s = Inr r' \<and>
      s ''data_transfer_gb'' = s ''cdn_transfer_gb'' \<longrightarrow>
      storage a' = static_web_apps_storage (breakdown r')
                   + static_web_apps_bandwidth (breakdown r')
                   + static_web_apps_base (breakdown r') \<and>
      azure_storage (breakdown r') = static_web_apps_base (breakdown r')
                   + static_web_apps_storage (breakdown r')
                   + static_web_apps_bandwidth (breakdown r') \<and>
      static_web_apps_base (breakdown r') = 9"
  proof
    assume h: "acc_calculate_azure_costs s = Inr a' \<and> calculate_azure_costs s = Inr r' \<and>
      s ''data_transfer_gb'' = s ''cdn_transfer_gb''"
    then have b: "azure_breakdown s = Inr (breakdown r')"
      by (auto simp: calculate_azure_costs_eq_Inr)
    from h acc_calculate_azure_costs_keys obtain requests sg tg users lg where
      k: "s ''monthly_requests'' = Some requests" "s ''storage_gb'' = Some sg"
        "s ''data_transfer_gb'' = Some tg" "s ''users'' = Some users"
        "s ''log_volume_gb'' = Some lg"
      by blast
    from h have e: "storage a' = sg * 0.18 + tg * 0.15 + 9"
      using acc_calculate_azure_costs_fields(2) [OF _ k] by blast
    from b obtain r d m ap st tr ru lg' se where
      k': "s ''storage_gb'' = Some st" "s ''cdn_transfer_gb'' = Some tr"
      and e': "static_web_apps_base (breakdown r') = azure_pricing_static_web_apps_standard"
        "static_web_apps_storage (breakdown r') = st * azure_pricing_static_web_apps_storage"
        "static_web_apps_bandwidth (breakdown r') = tr * azure_pricing_static_web_apps_bandwidth"
        "static_web_apps_total (breakdown r') = static_web_apps_base (breakdown r')
           + static_web_apps_storage (breakdown r') + static_web_apps_bandwidth (breakdown r')"
      by (rule azure_breakdown_InrE)
    from h k k' have "st = sg" "tr = tg" by simp_all
    then show "storage a' = static_web_apps_storage (breakdown r')
                   + static_web_apps_bandwidth (breakdown r')
                   + static_web_apps_base (breakdown r') \<and>
      azure_storage (breakdown r') = static_web_apps_base (breakdown r')
                   + static_web_apps_storage (breakdown r')
                   + static_web_apps_bandwidth (breakdown r') \<and>
      static_web_apps_base (breakdown r') = 9"
      by (simp add: e e' pricing azure_storage_def)
  qed
  have 3: "map_sum id simple_report.total (acc_calculate_aws_costs common_low_usage) = Inr 128.125"
    "map_sum id cost_report.total (calculate_aws_costs common_low_usage) = Inr 150.125"
    "map_sum id simple_report.total (acc_calculate_azure_costs common_low_usage) = Inr 5964.9"
    "map_sum id cost_report.total (calculate_azure_costs common_low_usage) = Inr 5985.9"
    "map_sum id compute (acc_calculate_aws_costs common_low_usage) = Inr 0.175"
    "map_sum id (aws_compute \<circ> breakdown) (calculate_aws_costs common_low_usage) = Inr 0.175"
    "map_sum id simple_report.database (acc_calculate_aws_costs common_low_usage) = Inr 65"
    "map_sum id (aws_database \<circ> breakdown) (calculate_aws_costs common_low_usage) = Inr 65"
    "map_sum id logging (acc_calculate_aws_costs common_low_usage) = Inr 33.3"
    "map_sum id (aws_logging \<circ> breakdown) (calculate_aws_costs common_low_usage) = Inr 49.3"
    "map_sum id (aws_additional \<circ> breakdown) (calculate_aws_costs common_low_usage) = Inr 26"
    "map_sum id (azure_additional_total \<circ> breakdown)
       (calculate_azure_costs common_low_usage) = Inr 36"
    by (simp_all add: acc_calculate_aws_costs_common acc_calculate_azure_costs_common
        calculate_aws_costs_common calculate_azure_costs_common aws_compute_def
        aws_database_def aws_logging_def aws_additional_def azure_additional_total_def)
  from 1 2 3 show ?thesis by blast
qed

theorem implementations_differ_in_fees_not_storage_prices_witness:
  "common_low_usage ''data_transfer_gb'' = common_low_usage ''cdn_transfer_gb'' \<and>
   (\<exists>a r a' r'.
      acc_calculate_aws_costs common_low_usage = Inr a \<and>
      calculate_aws_costs common_low_usage = Inr r \<and>
      storage a = aws_storage (breakdown r) \<and>
      simple_report.total a \<noteq> cost_report.total r \<and>
      acc_calculate_azure_costs common_low_usage = Inr a' \<and>
      calculate_azure_costs common_low_usage = Inr r' \<and>
      storage a' = static_web_apps_storage (breakdown r')
                   + static_web_apps_bandwidth (breakdown r')
                   + static_web_apps_base (breakdown r') \<and>
      azure_storage (breakdown r') = static_web_apps_base (breakdown r')
                   + static_web_apps_storage (breakdown r')
                   + static_web_apps_bandwidth (breakdown r') \<and>
      simple_report.total a' \<noteq> cost_report.total r')"
proof -
  have k: "common_low_usage ''data_transfer_gb'' = common_low_usage ''cdn_transfer_gb''"
    by (simp add: common_low_usage_simps)
  obtain a r a' r' where
    h: "acc_calculate_aws_costs common_low_usage = Inr a"
      "calculate_aws_costs common_low_usage = Inr r"
      "acc_calculate_azure_costs common_low_usage = Inr a'"
      "calculate_azure_costs common_low_usage = Inr r'"
    using acc_calculate_aws_costs_common calculate_aws_costs_common
      acc_calculate_azure_costs_common calculate_azure_costs_common by blast
  from implementations_differ_in_fees_not_storage_prices
    [where s = common_low_usage and a = a and r = r and a' = a' and r' = r'] h k
  have s: "storage a = aws_storage (breakdown r)"
    "storage a' = static_web_apps_storage (breakdown r')
                   + static_web_apps_bandwidth (breakdown r')
                   + static_web_apps_base (breakdown r')"
    "azure_storage (breakdown r') = static_web_apps_base (breakdown r')
                   + static_web_apps_storage (breakdown r')
                   + static_web_apps_bandwidth (breakdown r')"
    by blast+
  from h have t: "simple_report.total a \<noteq> cost_report.total r"
    "simple_report.total a' \<noteq> cost_report.total r'"
    by (auto simp: acc_calculate_aws_costs_common calculate_aws_costs_common
        acc_calculate_azure_costs_common calculate_azure_costs_common)
  from k h s t show ?thesis by blast
qed

end
